theory Spec2Isabelle
  imports Complex_Main "HOL-Library.AList" "HOL-Library.Sublist"
begin

section \<open>Python values\<close>

text \<open>
  The module \<^verbatim>\<open>src/llm/components/recommendation.py\<close> works on dynamically typed
  values that come out of JSON parsing: \<^verbatim>\<open>None\<close>, booleans, integers, floats, strings,
  lists and dictionaries with string keys. A Python float is either a finite number
  (modelled by its exact rational value), an infinity or NaN; \<^verbatim>\<open>json.loads\<close> yields all
  of them (it accepts the literals \<^verbatim>\<open>NaN\<close> and \<^verbatim>\<open>Infinity\<close>) and so does \<^verbatim>\<open>float\<close> on a
  string. A dictionary keeps its insertion order, so it is an association list; a lookup
  finds the first entry of a key. A string is a list of bytes.

  What the model leaves out: \<^verbatim>\<open>print\<close> and the logger are taken to succeed, so a call
  of them only counts for the expressions it evaluates; exceptions are told apart by
  their class; the functions the module calls from outside return values and do not
  change their arguments.
\<close>

datatype pyfloat = Finite rat | PosInf | NegInf | NaN

datatype json =
    JNone
  | JBool bool
  | JInt int
  | JFloat pyfloat
  | JStr string
  | JList "json list"
  | JDict "(string \<times> json) list"

type_synonym dict = "(string \<times> json) list"

text \<open>
  The exception classes the module can meet; all of them derive from \<^verbatim>\<open>Exception\<close>.
  \<open>BackendError\<close> stands for whatever the client raises.
\<close>

datatype exn =
    TypeError
  | AttributeError
  | KeyError
  | ValueError
  | OverflowError
  | IndexError
  | BackendError

definition ebind :: "exn + 'a \<Rightarrow> ('a \<Rightarrow> exn + 'b) \<Rightarrow> exn + 'b" where
  "ebind m f = (case m of Inl e \<Rightarrow> Inl e | Inr x \<Rightarrow> f x)"

text \<open>Comparison of floats: every comparison with NaN is false.\<close>

fun flt_lt :: "pyfloat \<Rightarrow> pyfloat \<Rightarrow> bool" where
  "flt_lt NaN _ = False"
| "flt_lt _ NaN = False"
| "flt_lt (Finite a) (Finite b) = (a < b)"
| "flt_lt NegInf NegInf = False"
| "flt_lt NegInf _ = True"
| "flt_lt _ NegInf = False"
| "flt_lt PosInf _ = False"
| "flt_lt _ PosInf = True"

text \<open>True division of a float by the integer 2.\<close>

fun flt_half :: "pyfloat \<Rightarrow> pyfloat" where
  "flt_half (Finite a) = Finite (a / 2)"
| "flt_half x = x"

text \<open>Python truthiness (\<^verbatim>\<open>bool(x)\<close>); NaN is truthy, both zeros are not.\<close>

fun truthy :: "json \<Rightarrow> bool" where
  "truthy JNone = False"
| "truthy (JBool b) = b"
| "truthy (JInt n) = (n \<noteq> 0)"
| "truthy (JFloat (Finite a)) = (a \<noteq> 0)"
| "truthy (JFloat _) = True"
| "truthy (JStr s) = (s \<noteq> [])"
| "truthy (JList xs) = (xs \<noteq> [])"
| "truthy (JDict d) = (d \<noteq> [])"

definition is_dict :: "json \<Rightarrow> bool" where
  "is_dict v = (case v of JDict _ \<Rightarrow> True | _ \<Rightarrow> False)"

text \<open>\<^verbatim>\<open>a in b\<close> on strings: \<open>a\<close> occurs in \<open>b\<close> as a contiguous substring.\<close>

fun str_contains :: "string \<Rightarrow> string \<Rightarrow> bool" where
  "str_contains [] pat = (pat = [])"
| "str_contains (c # cs) pat = (prefix pat (c # cs) \<or> str_contains cs pat)"

text \<open>
  \<^verbatim>\<open>key in x\<close> for a string key: membership among the keys of a dictionary, among the
  elements of a list, substring test on a string; a TypeError on anything else.
\<close>

fun py_contains :: "json \<Rightarrow> string \<Rightarrow> exn + bool" where
  "py_contains (JDict d) k = Inr (k \<in> set (map fst d))"
| "py_contains (JList xs) k = Inr (JStr k \<in> set xs)"
| "py_contains (JStr s) k = Inr (str_contains s k)"
| "py_contains _ k = Inl TypeError"

text \<open>\<^verbatim>\<open>x[key]\<close> for a string key: only a dictionary accepts it.\<close>

fun py_getitem :: "json \<Rightarrow> string \<Rightarrow> exn + json" where
  "py_getitem (JDict d) k = (case map_of d k of Some v \<Rightarrow> Inr v | None \<Rightarrow> Inl KeyError)"
| "py_getitem _ k = Inl TypeError"

text \<open>\<^verbatim>\<open>x.get(key, default)\<close>: an AttributeError when \<open>x\<close> is not a dictionary.\<close>

fun py_get :: "json \<Rightarrow> string \<Rightarrow> json \<Rightarrow> exn + json" where
  "py_get (JDict d) k dflt = Inr (case map_of d k of Some v \<Rightarrow> v | None \<Rightarrow> dflt)"
| "py_get _ k dflt = Inl AttributeError"

definition dict_get :: "dict \<Rightarrow> string \<Rightarrow> json \<Rightarrow> json" where
  "dict_get d k dflt = (case map_of d k of Some v \<Rightarrow> v | None \<Rightarrow> dflt)"

text \<open>\<^verbatim>\<open>x.items()\<close>.\<close>

fun py_items :: "json \<Rightarrow> exn + dict" where
  "py_items (JDict d) = Inr d"
| "py_items _ = Inl AttributeError"

text \<open>
  \<^verbatim>\<open>x[:n]\<close> on a string or a list; the sliced value is only ever printed. On any other
  value it raises (a TypeError; for a dictionary a KeyError from Python 3.12 on).\<close>

fun py_sliceable :: "json \<Rightarrow> exn + unit" where
  "py_sliceable (JStr s) = Inr ()"
| "py_sliceable (JList xs) = Inr ()"
| "py_sliceable _ = Inl TypeError"

section \<open>Standardising the response\<close>

text \<open>
  \<^verbatim>\<open>_standardize_llm_response\<close>. The template, the alias table in the order of the
  dictionary literal, the two nested loops with their \<^verbatim>\<open>break\<close>, the assignment of
  \<^verbatim>\<open>original_response\<close>, the copy of the keys that are not yet present, and the debug
  print that slices the reason.
\<close>

definition template :: dict where
  "template =
    [(''campus_id'', JStr ''UNKNOWN''),
     (''reason'', JStr ''No reason provided''),
     (''confidence_score'', JFloat (Finite 50)),
     (''care_level'', JStr ''unknown''),
     (''notes'', JList [])]"

definition field_mappings :: "(string \<times> string list) list" where
  "field_mappings =
    [(''campus_id'', [''recommended_campus'', ''campus_id'', ''campus'', ''hospital'', ''facility'']),
     (''reason'', [''clinical_reasoning'', ''reasoning'', ''reason'', ''justification'', ''rationale'']),
     (''confidence_score'', [''confidence_score'', ''confidence'', ''score'']),
     (''care_level'', [''care_level'', ''level_of_care'', ''recommended_care_level''])]"

text \<open>
  The inner loop: the first source field that is in the response with a truthy value;
  \<open>None\<close> when the loop ends without a \<^verbatim>\<open>break\<close>.
\<close>

fun first_source :: "json \<Rightarrow> string list \<Rightarrow> exn + json option" where
  "first_source rj [] = Inr None"
| "first_source rj (s # ss) =
    (case py_contains rj s of
       Inl e \<Rightarrow> Inl e
     | Inr False \<Rightarrow> first_source rj ss
     | Inr True \<Rightarrow>
        (case py_getitem rj s of
           Inl e \<Rightarrow> Inl e
         | Inr v \<Rightarrow> if truthy v then Inr (Some v) else first_source rj ss))"

fun map_fields :: "json \<Rightarrow> (string \<times> string list) list \<Rightarrow> dict \<Rightarrow> exn + dict" where
  "map_fields rj [] std = Inr std"
| "map_fields rj ((target, sources) # rest) std =
    (case first_source rj sources of
       Inl e \<Rightarrow> Inl e
     | Inr None \<Rightarrow> map_fields rj rest std
     | Inr (Some v) \<Rightarrow> map_fields rj rest (AList.update target v std))"

fun add_other_fields :: "dict \<Rightarrow> dict \<Rightarrow> dict" where
  "add_other_fields [] std = std"
| "add_other_fields ((key, val) # rest) std =
    (if key \<notin> set (map fst std) then add_other_fields rest (AList.update key val std)
     else add_other_fields rest std)"

definition standardize_llm_response :: "json \<Rightarrow> exn + dict" where
  "standardize_llm_response recommendation_json =
    ebind (map_fields recommendation_json field_mappings template) (\<lambda>std1.
    let std2 = AList.update ''original_response'' recommendation_json std1 in
    ebind (py_items recommendation_json) (\<lambda>items.
    let standardized = add_other_fields items std2 in
    ebind (py_getitem (JDict standardized) ''campus_id'') (\<lambda>_.
    ebind (py_getitem (JDict standardized) ''reason'') (\<lambda>reason.
    ebind (py_sliceable reason) (\<lambda>_.
    ebind (py_getitem (JDict standardized) ''care_level'') (\<lambda>_.
    Inr standardized))))))"

section \<open>What the module takes from outside\<close>

text \<open>
  Library functions and code of the repository that is imported but not part of the
  module are parameters of the model: the rendering of a value in an f-string
  (\<^verbatim>\<open>str\<close>), the format \<^verbatim>\<open>.1f\<close> of a float, \<^verbatim>\<open>float\<close> on a string (\<open>None\<close>: ValueError), the
  text of an exception, \<^verbatim>\<open>json.loads\<close> (\<open>None\<close>: JSONDecodeError),
  \<^verbatim>\<open>robust_json_parser\<close> of \<^verbatim>\<open>src.llm.utils\<close> and
  \<^verbatim>\<open>calculate_recommendation_confidence\<close> of \<^verbatim>\<open>src.core.decision.confidence_estimator\<close>.
\<close>

record externals =
  py_str :: "json \<Rightarrow> string"
  fmt_1f :: "pyfloat \<Rightarrow> string"
  float_of_str :: "string \<Rightarrow> pyfloat option"
  str_exn :: "exn \<Rightarrow> string"
  json_loads :: "string \<Rightarrow> json option"
  robust_json_parser :: "string \<Rightarrow> exn + json"
  calculate_recommendation_confidence :: "json \<Rightarrow> exn + pyfloat"

text \<open>
  \<^verbatim>\<open>float(x)\<close>. An integer too large for a double raises OverflowError (from
  \<open>2^1024 - 2^970\<close> on, the first integer that rounds to \<open>2^1024\<close>).
\<close>

definition py_float :: "externals \<Rightarrow> json \<Rightarrow> exn + pyfloat" where
  "py_float ext v =
    (case v of
       JFloat f \<Rightarrow> Inr f
     | JInt n \<Rightarrow> if 2 ^ 1024 - 2 ^ 970 \<le> \<bar>n\<bar> then Inl OverflowError else Inr (Finite (of_int n))
     | JBool b \<Rightarrow> Inr (Finite (if b then 1 else 0))
     | JStr s \<Rightarrow> (case float_of_str ext s of Some f \<Rightarrow> Inr f | None \<Rightarrow> Inl ValueError)
     | _ \<Rightarrow> Inl TypeError)"

text \<open>
  \<^verbatim>\<open>str.lower\<close> and \<^verbatim>\<open>str.upper\<close>; a string is a list of bytes here and only the ASCII
  letters change case.
\<close>

definition char_lower :: "char \<Rightarrow> char" where
  "char_lower c =
    (case map_of (zip ''ABCDEFGHIJKLMNOPQRSTUVWXYZ'' ''abcdefghijklmnopqrstuvwxyz'') c of
       Some l \<Rightarrow> l | None \<Rightarrow> c)"

definition char_upper :: "char \<Rightarrow> char" where
  "char_upper c =
    (case map_of (zip ''abcdefghijklmnopqrstuvwxyz'' ''ABCDEFGHIJKLMNOPQRSTUVWXYZ'') c of
       Some u \<Rightarrow> u | None \<Rightarrow> c)"

definition str_lower :: "string \<Rightarrow> string" where
  "str_lower s = map char_lower s"

definition str_upper :: "string \<Rightarrow> string" where
  "str_upper s = map char_upper s"

text \<open>\<^verbatim>\<open>x.lower()\<close> on a value: an AttributeError unless it is a string.\<close>

fun py_lower :: "json \<Rightarrow> exn + string" where
  "py_lower (JStr s) = Inr (str_lower s)"
| "py_lower _ = Inl AttributeError"

section \<open>The Recommendation\<close>

text \<open>
  \<^verbatim>\<open>Recommendation\<close> of \<^verbatim>\<open>src.core.models\<close> is constructed with six keyword arguments;
  the constructor is taken to store them as given. The campus and the reason come out of
  the response and can be any value. (The field \<^verbatim>\<open>notes\<close> is written \<open>notes'\<close>.)
\<close>

record recommendation =
  transfer_request_id :: string
  recommended_campus_id :: json
  confidence_score :: pyfloat
  reason :: json
  notes' :: "string list"
  explainability_details :: dict

section \<open>Converting the response\<close>

definition care_level_names :: "(string \<times> string) list" where
  "care_level_names =
    [(''general'', ''General Floor''),
     (''general_floor'', ''General Floor''),
     (''telemetry'', ''Telemetry Unit''),
     (''intermediate'', ''Intermediate Care''),
     (''intermediate_care'', ''Intermediate Care''),
     (''icu'', ''ICU (Intensive Care)''),
     (''intensive_care'', ''ICU (Intensive Care)''),
     (''picu'', ''PICU (Pediatric Intensive Care)''),
     (''nicu'', ''NICU (Neonatal Intensive Care)'')]"

definition care_level_display :: "string \<Rightarrow> string" where
  "care_level_display care_level =
    (case map_of care_level_names care_level of Some d \<Rightarrow> d | None \<Rightarrow> str_upper care_level)"

text \<open>The loop that collects \<^verbatim>\<open>key_factors\<close>.\<close>

fun key_factors :: "externals \<Rightarrow> json \<Rightarrow> string list \<Rightarrow> exn + string list" where
  "key_factors ext rj [] = Inr []"
| "key_factors ext rj (key # keys) =
    (case py_contains rj key of
       Inl e \<Rightarrow> Inl e
     | Inr False \<Rightarrow> key_factors ext rj keys
     | Inr True \<Rightarrow>
        (case py_getitem rj key of
           Inl e \<Rightarrow> Inl e
         | Inr v \<Rightarrow>
            (case key_factors ext rj keys of
               Inl e \<Rightarrow> Inl e
             | Inr fs \<Rightarrow> Inr ((key @ '': '' @ py_str ext v) # fs))))"

text \<open>
  The local dictionary \<^verbatim>\<open>explainability_details\<close> of \<^verbatim>\<open>_convert_to_recommendation\<close>
  (the lines from ``Build explainability details'' to the proximity analysis). The
  three proximity values are the literals \<^verbatim>\<open>False\<close>, \<^verbatim>\<open>""\<close> and \<^verbatim>\<open>""\<close>.
\<close>

definition proximity_analysis :: "json \<Rightarrow> exn + dict" where
  "proximity_analysis recommendation_json =
    ebind (py_contains recommendation_json ''campus_scores'') (\<lambda>has_campus_scores.
    if has_campus_scores then
      (let closer_bypassed = False; closer_campus = ''''; bypass_reason = '''' in
       Inr [(''closer_options_bypassed'', JBool closer_bypassed),
            (''closer_campus'', JStr closer_campus),
            (''bypass_reason'', JStr bypass_reason)])
    else Inr [])"

definition build_explainability :: "externals \<Rightarrow> json \<Rightarrow> string \<Rightarrow> exn + dict" where
  "build_explainability ext recommendation_json level_display =
    ebind (py_contains recommendation_json ''score_utilization'') (\<lambda>has_util.
    ebind (if has_util then
             ebind (py_getitem recommendation_json ''score_utilization'') (\<lambda>score_util.
             ebind (py_get score_util ''pediatric_scores_available'' (JInt 0)) (\<lambda>avail.
             ebind (py_get score_util ''referenced_in_reasoning'' (JBool False)) (\<lambda>referenced.
             ebind (py_get score_util ''reference_count'' (JInt 0)) (\<lambda>cnt.
             Inr [(''pediatric_scores'',
                   JDict [(''scores_available'', avail),
                          (''referenced_in_reasoning'', referenced),
                          (''reference_count'', cnt)])]))))
           else Inr []) (\<lambda>details1.
    let details2 = AList.update ''care_level'' (JStr level_display) details1 in
    ebind (py_get recommendation_json ''urgency'' (JStr ''medium'')) (\<lambda>urgency.
    let details3 = AList.update ''urgency'' urgency details2 in
    ebind (key_factors ext recommendation_json [''care_level'', ''confidence_score'', ''urgency'']) (\<lambda>factors.
    let details4 = (if factors \<noteq> []
                    then AList.update ''key_factors_for_recommendation'' (JList (map JStr factors)) details3
                    else details3) in
    ebind (proximity_analysis recommendation_json) (\<lambda>prox.
    Inr (AList.update ''proximity_analysis'' (JDict prox) details4))))))"

text \<open>
  The body of the \<^verbatim>\<open>try\<close> block of \<^verbatim>\<open>_convert_to_recommendation\<close>. The dictionary
  \<^verbatim>\<open>recommendation_data\<close> and the local \<^verbatim>\<open>explainability_details\<close> are computed (their
  lookups can raise) and then not used: the Recommendation receives \<^verbatim>\<open>standardized\<close>.
\<close>

definition convert_body :: "externals \<Rightarrow> json \<Rightarrow> exn + recommendation" where
  "convert_body ext recommendation_json =
    ebind (standardize_llm_response recommendation_json) (\<lambda>standardized.
    let campus_name = dict_get standardized ''campus_id'' (JStr ''No specific campus recommended'');
        backup_campus = dict_get standardized ''backup_campus'' (JStr ''No backup campus specified'') in
    ebind (py_float ext (dict_get standardized ''backup_confidence_score'' (JFloat (Finite 0)))) (\<lambda>backup_confidence.
    ebind (py_float ext (dict_get standardized ''confidence_score'' (JFloat (Finite 70)))) (\<lambda>confidence0.
    let confidence = (if flt_lt confidence0 (Finite 0) \<or> flt_lt (Finite 100) confidence0
                      then Finite 70 else confidence0);
        all_data = dict_get standardized ''all_data''
                     (dict_get standardized ''original_response'' (JDict []));
        specialty_data = dict_get standardized ''specialty_data'' (JDict []);
        exclusion_data = dict_get standardized ''exclusion_data'' (JDict []) in
    ebind (py_get all_data ''demographics'' (JDict [])) (\<lambda>demographics.
    ebind (py_get all_data ''chief_complaint'' (JStr '''')) (\<lambda>chief_complaint.
    ebind (py_get all_data ''clinical_history'' (JStr '''')) (\<lambda>clinical_history.
    ebind (py_get all_data ''vital_signs'' (JDict [])) (\<lambda>vital_signs.
    let recommendation_data =
          [(''patient_demographics'', demographics),
           (''chief_complaint'', chief_complaint),
           (''clinical_history'', clinical_history),
           (''extracted_vital_signs'', vital_signs),
           (''care_level_assessment'', specialty_data),
           (''exclusion_criteria'', exclusion_data),
           (''recommended_campus'',
            JDict [(''campus_id'', campus_name), (''confidence_score'', JFloat confidence)])] in
    ebind (py_lower (dict_get standardized ''care_level'' (JStr ''general''))) (\<lambda>care_level.
    let level_display = care_level_display care_level;
        notes = [''Care Level: '' @ level_display,
                 ''\<newline>Backup Recommendation: '' @ py_str ext backup_campus
                   @ '' (Confidence: '' @ fmt_1f ext backup_confidence @ ''%)''];
        final_reason = dict_get standardized ''reason''
                         (JStr ''Recommendation generated without detailed reasoning.'') in
    ebind (build_explainability ext recommendation_json level_display) (\<lambda>explainability.
    ebind (py_sliceable final_reason) (\<lambda>_.
    Inr \<lparr> transfer_request_id = ''llm_generated'',
          recommended_campus_id = campus_name,
          confidence_score = confidence,
          reason = final_reason,
          notes' = notes,
          explainability_details = standardized \<rparr>))))))))))"

text \<open>The \<^verbatim>\<open>except Exception\<close> branch of \<^verbatim>\<open>_convert_to_recommendation\<close>.\<close>

definition conversion_error :: "externals \<Rightarrow> exn \<Rightarrow> recommendation" where
  "conversion_error ext e =
    \<lparr> transfer_request_id = ''error'',
      recommended_campus_id = JStr ''ERROR'',
      confidence_score = Finite 10,
      reason = JStr (''Error processing recommendation: '' @ str_exn ext e),
      notes' = [''LLM processing error''],
      explainability_details = [(''error'', JStr (str_exn ext e))] \<rparr>"

definition convert_to_recommendation :: "externals \<Rightarrow> json \<Rightarrow> recommendation" where
  "convert_to_recommendation ext recommendation_json =
    (case convert_body ext recommendation_json of
       Inr r \<Rightarrow> r
     | Inl e \<Rightarrow> conversion_error ext e)"

section \<open>Building the prompt\<close>

text \<open>\<^verbatim>\<open>sep.join(xs)\<close> on strings, and on values (a TypeError on an element that is no string).\<close>

fun join :: "string \<Rightarrow> string list \<Rightarrow> string" where
  "join sep [] = []"
| "join sep [x] = x"
| "join sep (x # y # ys) = x @ sep @ join sep (y # ys)"

fun all_strings :: "json list \<Rightarrow> exn + string list" where
  "all_strings [] = Inr []"
| "all_strings (JStr s # xs) = (case all_strings xs of Inl e \<Rightarrow> Inl e | Inr ss \<Rightarrow> Inr (s # ss))"
| "all_strings (_ # xs) = Inl TypeError"

definition py_join :: "string \<Rightarrow> json list \<Rightarrow> exn + string" where
  "py_join sep xs = ebind (all_strings xs) (\<lambda>ss. Inr (join sep ss))"

text \<open>\<^verbatim>\<open>key in x and x[key]\<close>: the value when it is there and truthy.\<close>

definition present_truthy :: "json \<Rightarrow> string \<Rightarrow> exn + json option" where
  "present_truthy x k =
    ebind (py_contains x k) (\<lambda>there.
    if there then ebind (py_getitem x k) (\<lambda>v. Inr (if truthy v then Some v else None))
    else Inr None)"

text \<open>\<^verbatim>\<open>len(x)\<close>.\<close>

fun py_len :: "json \<Rightarrow> exn + nat" where
  "py_len (JDict d) = Inr (length d)"
| "py_len (JList xs) = Inr (length xs)"
| "py_len (JStr s) = Inr (length s)"
| "py_len _ = Inl TypeError"

text \<open>The loop over the five vital signs of \<^verbatim>\<open>_extract_essential_patient_info\<close>.\<close>

definition vital_names :: "(string \<times> string) list" where
  "vital_names =
    [(''hr'', ''Heart Rate''), (''rr'', ''Respiratory Rate''), (''bp'', ''Blood Pressure''),
     (''temp'', ''Temperature''), (''o2'', ''O2 Saturation'')]"

fun vitals_text :: "externals \<Rightarrow> json \<Rightarrow> (string \<times> string) list \<Rightarrow> exn + string list" where
  "vitals_text ext vital_signs [] = Inr []"
| "vitals_text ext vital_signs ((vital_key, display_name) # rest) =
    (case py_contains vital_signs vital_key of
       Inl e \<Rightarrow> Inl e
     | Inr False \<Rightarrow> vitals_text ext vital_signs rest
     | Inr True \<Rightarrow>
        (case py_getitem vital_signs vital_key of
           Inl e \<Rightarrow> Inl e
         | Inr v \<Rightarrow>
            (case vitals_text ext vital_signs rest of
               Inl e \<Rightarrow> Inl e
             | Inr ls \<Rightarrow> Inr ((''- '' @ display_name @ '': '' @ py_str ext v) # ls))))"

definition extract_essential_patient_info :: "externals \<Rightarrow> dict \<Rightarrow> exn + string" where
  "extract_essential_patient_info ext entities =
    (if entities = [] then Inr ''No patient information available.''
     else
      let demographics = dict_get entities ''demographics'' (JDict []) in
      ebind (py_get demographics ''age'' (JStr ''Unknown age'')) (\<lambda>age.
      ebind (py_get demographics ''gender'' (JStr ''Unknown gender'')) (\<lambda>gender.
      ebind (py_get demographics ''weight'' (JStr ''Unknown weight'')) (\<lambda>weight.
      let vital_signs = dict_get entities ''vital_signs'' (JDict []) in
      ebind (vitals_text ext vital_signs vital_names) (\<lambda>vitals.
      let clinical_info = dict_get entities ''clinical_information''
                            (dict_get entities ''clinical_info'' (JDict [])) in
      ebind (py_get clinical_info ''chief_complaint'' (JStr ''Unknown'')) (\<lambda>chief_complaint.
      ebind (py_get clinical_info ''clinical_history'' (JStr ''No history provided'')) (\<lambda>clinical_history.
      let output1 = ''- Demographics: '' @ py_str ext age @ '', '' @ py_str ext gender @ '', ''
                      @ py_str ext weight @ ''\<newline>'';
          output2 = (if vitals \<noteq> []
                     then output1 @ ''- Vital Signs:\<newline>  '' @ join ''\<newline>  '' vitals @ ''\<newline>''
                     else output1);
          output3 = output2 @ ''- Chief Complaint: '' @ py_str ext chief_complaint @ ''\<newline>'';
          output4 = output3 @ ''- Clinical History: '' @ py_str ext clinical_history @ ''\<newline>'' in
      ebind (present_truthy clinical_info ''diagnoses'') (\<lambda>diag.
      case diag of
        None \<Rightarrow> Inr output4
      | Some diagnoses \<Rightarrow>
          ebind (case diagnoses of JList xs \<Rightarrow> py_join '', '' xs | _ \<Rightarrow> Inr (py_str ext diagnoses))
            (\<lambda>diagnoses_text. Inr (output4 @ ''- Diagnoses: '' @ diagnoses_text @ ''\<newline>''))))))))))"

text \<open>\<^verbatim>\<open>_extract_essential_specialty_info\<close>; every access in it is guarded.\<close>

fun specialty_names :: "externals \<Rightarrow> json list \<Rightarrow> string list" where
  "specialty_names ext [] = []"
| "specialty_names ext (JDict d # rest) =
    (case map_of d ''specialty'' of
       Some sp \<Rightarrow> (py_str ext sp @ '' (Confidence: ''
                    @ py_str ext (dict_get d ''confidence'' (JStr ''Unknown'')) @ ''%)'')
                  # specialty_names ext rest
     | None \<Rightarrow> specialty_names ext rest)"
| "specialty_names ext (JStr s # rest) = s # specialty_names ext rest"
| "specialty_names ext (_ # rest) = specialty_names ext rest"

definition extract_essential_specialty_info :: "externals \<Rightarrow> dict \<Rightarrow> string" where
  "extract_essential_specialty_info ext assessment =
    (if assessment = [] then ''No specialty assessment available.''
     else
      let output1 =
            (case map_of assessment ''recommended_care_level'' of
               None \<Rightarrow> []
             | Some level \<Rightarrow>
                 [''- Recommended Care Level: '' @ py_str ext level] @
                 (case map_of assessment ''care_level_reasoning'' of
                    None \<Rightarrow> []
                  | Some reasoning \<Rightarrow> [''- Care Level Reasoning: '' @ py_str ext reasoning]));
          output2 =
            (case map_of assessment ''required_specialties'' of
               None \<Rightarrow> output1
             | Some specialties \<Rightarrow>
                 if truthy specialties then
                   (case specialties of
                      JList xs \<Rightarrow> output1 @ [''- Required Specialties: '' @ join '', '' (specialty_names ext xs)]
                    | _ \<Rightarrow> output1 @ [''- Required Specialties: '' @ py_str ext specialties])
                 else output1) in
      if output2 \<noteq> [] then join ''\<newline>'' output2 else ''No specific specialty needs identified.'')"

text \<open>\<^verbatim>\<open>_extract_essential_exclusion_info\<close>.\<close>

definition extract_essential_exclusion_info :: "externals \<Rightarrow> dict option \<Rightarrow> exn + string" where
  "extract_essential_exclusion_info ext exclusion_opt =
    (case exclusion_opt of
       None \<Rightarrow> Inr ''No exclusion criteria evaluated.''
     | Some exclusion \<Rightarrow>
        if exclusion = [] then Inr ''No exclusion criteria evaluated.''
        else
          ebind (present_truthy (JDict exclusion) ''excluded_campuses'') (\<lambda>exc.
          ebind (case exc of
                   None \<Rightarrow> Inr []
                 | Some (JList xs) \<Rightarrow>
                     ebind (py_join '', '' xs) (\<lambda>t. Inr [''- Excluded Campuses: '' @ t])
                 | Some excluded \<Rightarrow> Inr [''- Excluded Campuses: '' @ py_str ext excluded]) (\<lambda>output1.
          ebind (present_truthy (JDict exclusion) ''exclusion_reasons'') (\<lambda>rs.
          let output2 =
                (case rs of
                   None \<Rightarrow> output1
                 | Some (JDict reasons) \<Rightarrow>
                     output1 @ [''- Exclusion Reasons:\<newline>  - '' @
                       join ''\<newline>  - '' (map (\<lambda>(campus, why). campus @ '': '' @ py_str ext why) reasons)]
                 | Some reasons \<Rightarrow> output1 @ [''- Exclusion Reasons: '' @ py_str ext reasons]) in
          ebind (present_truthy (JDict exclusion) ''recommended_campus'') (\<lambda>rc.
          let output3 =
                (case rc of
                   None \<Rightarrow> output2
                 | Some campus \<Rightarrow>
                     output2 @ [''- Recommended Campus from Exclusion Analysis: '' @ py_str ext campus]) in
          Inr (if output3 \<noteq> [] then join ''\<newline>'' output3
               else ''No specific exclusion criteria identified.''))))))"

text \<open>
  \<^verbatim>\<open>_format_scoring_data\<close>. A loop \<^verbatim>\<open>for name, value in x.items()\<close> that appends one line
  per item, then the four score blocks, the care levels and the justifications.
\<close>

definition items_lines :: "externals \<Rightarrow> string \<Rightarrow> json \<Rightarrow> exn + string" where
  "items_lines ext lead x =
    ebind (py_items x) (\<lambda>d.
    Inr (concat (map (\<lambda>(name, v). lead @ name @ '': '' @ py_str ext v @ ''\<newline>'') d)))"

text \<open>The optional part of a block: \<^verbatim>\<open>if key in block:\<close> a heading and the items of \<^verbatim>\<open>block[key]\<close>.\<close>

definition items_section :: "externals \<Rightarrow> json \<Rightarrow> string \<Rightarrow> string \<Rightarrow> exn + string" where
  "items_section ext block key heading =
    ebind (py_contains block key) (\<lambda>there.
    if there then
      ebind (py_getitem block key) (\<lambda>sub.
      ebind (items_lines ext ''  - '' sub) (\<lambda>ls. Inr (heading @ ls)))
    else Inr [])"

text \<open>\<^verbatim>\<open>if key in block:\<close> one line with \<^verbatim>\<open>block[key]\<close>.\<close>

definition value_line :: "externals \<Rightarrow> json \<Rightarrow> string \<Rightarrow> string \<Rightarrow> exn + string" where
  "value_line ext block key label =
    ebind (py_contains block key) (\<lambda>there.
    if there then ebind (py_getitem block key) (\<lambda>v. Inr (label @ py_str ext v @ ''\<newline>''))
    else Inr [])"

definition format_pews :: "externals \<Rightarrow> json \<Rightarrow> exn + string" where
  "format_pews ext scores =
    ebind (py_contains scores ''pews'') (\<lambda>there.
    if \<not> there then Inr [] else
    ebind (py_getitem scores ''pews'') (\<lambda>pews.
    ebind (py_get pews ''total_score'' (JStr ''N/A'')) (\<lambda>total.
    ebind (py_get pews ''interpretation'' (JStr ''N/A'')) (\<lambda>interpretation.
    ebind (items_section ext pews ''subscores'' ''- Subscores:\<newline>'') (\<lambda>subscores.
    ebind (py_contains pews ''recommended_actions'') (\<lambda>has_actions.
    ebind (if has_actions then
             ebind (py_getitem pews ''recommended_actions'') (\<lambda>actions.
             Inr (''- Recommended Actions:\<newline>'' @
                  (case actions of
                     JList xs \<Rightarrow> concat (map (\<lambda>a. ''  - '' @ py_str ext a @ ''\<newline>'') xs)
                   | _ \<Rightarrow> ''  - '' @ py_str ext actions @ ''\<newline>'')))
           else Inr []) (\<lambda>actions_text.
    Inr (''### PEWS (Pediatric Early Warning Score)\<newline>''
         @ ''- Total Score: '' @ py_str ext total @ ''\<newline>''
         @ ''- Interpretation: '' @ py_str ext interpretation @ ''\<newline>''
         @ subscores @ actions_text @ ''\<newline>''))))))))"

definition format_trap :: "externals \<Rightarrow> json \<Rightarrow> exn + string" where
  "format_trap ext scores =
    ebind (py_contains scores ''trap'') (\<lambda>there.
    if \<not> there then Inr [] else
    ebind (py_getitem scores ''trap'') (\<lambda>trap.
    ebind (py_get trap ''total_score'' (JStr ''N/A'')) (\<lambda>total.
    ebind (py_get trap ''risk_level'' (JStr ''N/A'')) (\<lambda>risk.
    ebind (items_section ext trap ''subscores'' ''- System Assessments:\<newline>'') (\<lambda>subscores.
    ebind (value_line ext trap ''transport_team_recommendation'' ''- Transport Team: '') (\<lambda>team.
    Inr (''### TRAP (Transport Risk Assessment in Pediatrics)\<newline>''
         @ ''- Total Score: '' @ py_str ext total @ ''\<newline>''
         @ ''- Risk Level: '' @ py_str ext risk @ ''\<newline>''
         @ subscores @ team @ ''\<newline>'')))))))"

definition format_prism :: "externals \<Rightarrow> json \<Rightarrow> exn + string" where
  "format_prism ext scores =
    ebind (py_contains scores ''prism_iii'') (\<lambda>there.
    if \<not> there then Inr [] else
    ebind (py_getitem scores ''prism_iii'') (\<lambda>prism.
    ebind (py_get prism ''total_score'' (JStr ''N/A'')) (\<lambda>total.
    ebind (py_get prism ''mortality_risk'' (JStr ''N/A'')) (\<lambda>risk.
    ebind (items_section ext prism ''variable_scores'' ''- Physiologic Variables:\<newline>'') (\<lambda>variables.
    Inr (''### PRISM III (Pediatric Risk of Mortality)\<newline>''
         @ ''- Total Score: '' @ py_str ext total @ ''\<newline>''
         @ ''- Mortality Risk: '' @ py_str ext risk @ ''\<newline>''
         @ variables @ ''\<newline>''))))))"

definition format_cameo :: "externals \<Rightarrow> json \<Rightarrow> exn + string" where
  "format_cameo ext scores =
    ebind (py_contains scores ''cameo_ii'') (\<lambda>there.
    if \<not> there then Inr [] else
    ebind (py_getitem scores ''cameo_ii'') (\<lambda>cameo.
    ebind (py_get cameo ''total_score'' (JStr ''N/A'')) (\<lambda>total.
    ebind (py_get cameo ''acuity_level'' (JStr ''N/A'')) (\<lambda>acuity.
    ebind (items_section ext cameo ''domain_scores'' ''- Domain Scores:\<newline>'') (\<lambda>domains.
    ebind (value_line ext cameo ''recommended_nurse_ratio'' ''- Recommended Nurse Ratio: '') (\<lambda>ratio.
    Inr (''### CAMEO II (Complexity Assessment and Monitoring)\<newline>''
         @ ''- Total Score: '' @ py_str ext total @ ''\<newline>''
         @ ''- Acuity Level: '' @ py_str ext acuity @ ''\<newline>''
         @ domains @ ratio @ ''\<newline>'')))))))"

definition format_scoring_data :: "externals \<Rightarrow> json \<Rightarrow> exn + string" where
  "format_scoring_data ext scoring_results =
    (if \<not> truthy scoring_results \<or> \<not> is_dict scoring_results
     then Inr ''No pediatric scoring data available.''
     else
      ebind (present_truthy scoring_results ''scores'') (\<lambda>sc.
      ebind (case sc of
               None \<Rightarrow> Inr []
             | Some scores \<Rightarrow>
                 ebind (format_pews ext scores) (\<lambda>pews.
                 ebind (format_trap ext scores) (\<lambda>trap.
                 ebind (format_prism ext scores) (\<lambda>prism.
                 ebind (format_cameo ext scores) (\<lambda>cameo.
                 Inr (pews @ trap @ prism @ cameo)))))) (\<lambda>scores_text.
      ebind (py_contains scoring_results ''recommended_care_levels'') (\<lambda>has_levels.
      ebind (if has_levels then
               ebind (py_getitem scoring_results ''recommended_care_levels'') (\<lambda>care_levels.
               ebind (items_lines ext ''- '' care_levels) (\<lambda>ls.
               Inr (''### Care Level Recommendations Based on Scores\<newline>'' @ ls @ ''\<newline>'')))
             else Inr []) (\<lambda>levels_text.
      ebind (py_contains scoring_results ''justifications'') (\<lambda>has_just.
      ebind (if has_just then
               ebind (py_getitem scoring_results ''justifications'') (\<lambda>justifications.
               ebind (items_lines ext ''- '' justifications) (\<lambda>ls.
               Inr (''### Score-Based Justifications\<newline>'' @ ls)))
             else Inr []) (\<lambda>just_text.
      Inr (scores_text @ levels_text @ just_text))))))))"

definition json_instructions :: string where
  \<open>json_instructions =
     ''\<newline>'' @
     ''Use the above information to provide a hospital transfer recommendation in the following JSON format:\<newline>'' @
     ''```json\<newline>'' @
     ''{\<newline>'' @
     ''  "recommended_campus": string,       // The recommended campus or hospital name\<newline>'' @
     ''  "care_level": string,               // Recommended care level (general_floor, intermediate_care, intensive_care, etc.)\<newline>'' @
     ''  "confidence_score": number,         // Confidence score (0-100) for this recommendation\<newline>'' @
     ''  "clinical_reasoning": string,       // Clinical justification for the recommendation\<newline>'' @
     ''  "campus_scores": {                  // Detailed scoring for each considered campus\<newline>'' @
     ''    "primary": {\<newline>'' @
     ''      "location": number,             // Score for location proximity (1-5)\<newline>'' @
     ''      "specific_resources": number    // Score for specific resources needed (1-5)\<newline>'' @
     ''    },\<newline>'' @
     ''    "backup": {                       // Optional backup recommendation\<newline>'' @
     ''      "location": number,\<newline>'' @
     ''      "specific_resources": number\<newline>'' @
     ''    }\<newline>'' @
     ''  },\<newline>'' @
     ''  "bed_availability": {\<newline>'' @
     ''    "confirmed": boolean,             // Whether bed availability was confirmed\<newline>'' @
     ''    "availability_notes": string      // Notes on bed availability status\<newline>'' @
     ''  },\<newline>'' @
     ''  "traffic_report": {\<newline>'' @
     ''    "estimated_transport_time": string,  // Estimated transport time to facility\<newline>'' @
     ''    "traffic_conditions": string,        // Current traffic conditions (normal, heavy, etc.)\<newline>'' @
     ''    "route_notes": string                // Any notes about the transport route\<newline>'' @
     ''  }\<newline>'' @
     ''}\<newline>'' @
     ''```\<newline>'' @
     ''\<newline>'' @
     ''Do not include any text before or after the JSON. Only return a valid JSON object.\<newline>''\<close>

definition recommendation_task :: string where
  \<open>recommendation_task =
     ''\<newline>'' @
     ''## Recommendation Task\<newline>'' @
     ''Based on the above information, provide a hospital transfer recommendation. Consider:\<newline>'' @
     ''1. The patient's care needs and suggested care level\<newline>'' @
     ''2. Any excluded campuses or specialties\<newline>'' @
     ''3. Proximity to the patient's location\<newline>'' @
     ''4. Availability of required services\<newline>'' @
     ''5. Current bed availability\<newline>''\<close>

definition scoring_guidance :: string where
  \<open>scoring_guidance =
     ''\<newline>'' @
     ''6. Pediatric severity scores should heavily influence your recommendation, especially:\<newline>'' @
     ''   - Use PEWS, TRAP scores to determine transport requirements\<newline>'' @
     ''   - Use PRISM III scores to assess mortality risk\<newline>'' @
     ''   - Use CAMEO II scores to determine nursing care needs\<newline>'' @
     ''   - Explicitly reference the scores in your reasoning\<newline>''\<close>


text \<open>
  \<^verbatim>\<open>_build_recommendation_prompt\<close>: the prompt, whether scoring data is there, and the
  number of scores.
\<close>

definition build_recommendation_prompt ::
    "externals \<Rightarrow> dict \<Rightarrow> dict \<Rightarrow> dict option \<Rightarrow> exn + (string \<times> bool \<times> nat)" where
  "build_recommendation_prompt ext extracted_entities specialty_assessment exclusion_evaluation =
    ebind (extract_essential_patient_info ext extracted_entities) (\<lambda>patient_info.
    let specialty_info = extract_essential_specialty_info ext specialty_assessment in
    ebind (extract_essential_exclusion_info ext exclusion_evaluation) (\<lambda>exclusion_info.
    ebind (case map_of specialty_assessment ''scoring_results'' of
             None \<Rightarrow> Inr (False, 0, [])
           | Some scoring_results \<Rightarrow>
               if truthy scoring_results \<and> is_dict scoring_results then
                 ebind (py_get scoring_results ''scores'' (JDict [])) (\<lambda>scores.
                 ebind (py_len scores) (\<lambda>score_count.
                 ebind (format_scoring_data ext scoring_results) (\<lambda>scoring_info.
                 Inr (True, score_count, scoring_info))))
               else Inr (False, 0, [])) (\<lambda>(has_scores, score_count, scoring_info).
    let prompt1 = ''\<newline># Transfer Recommendation Request\<newline>\<newline>## Patient Information\<newline>''
                    @ patient_info
                    @ ''\<newline>\<newline>## Specialty Assessment\<newline>'' @ specialty_info
                    @ ''\<newline>\<newline>## Exclusion Criteria\<newline>'' @ exclusion_info @ ''\<newline>'';
        prompt2 = (if has_scores
                   then prompt1 @ ''\<newline>## Pediatric Scoring Data\<newline>'' @ scoring_info @ ''\<newline>''
                   else prompt1);
        prompt3 = prompt2 @ recommendation_task;
        prompt4 = (if has_scores then prompt3 @ scoring_guidance else prompt3) in
    Inr (prompt4, has_scores, score_count))))"

section \<open>Asking the model and reading its answer\<close>

text \<open>
  The generator holds the client and the model name. The client receives the model name
  and the two messages (role and content; the temperature 0.1 and the token limit 2048
  are constants of the call) and returns the list of choices or raises. A choice has
  its message content (which can be \<^verbatim>\<open>None\<close>) and its finish reason.
\<close>

record choice =
  message_content :: "string option"
  finish_reason :: string

record generator =
  client :: "string \<Rightarrow> (string \<times> string) list \<Rightarrow> exn + choice list"
  model :: string

definition system_message :: string where
  "system_message = ''You are a hospital transfer coordinator. Respond ONLY with valid JSON.''"

text \<open>
  \<^verbatim>\<open>s.split(sep, 1)\<close> for a separator that occurs in \<open>s\<close>: the text before and the text
  after its first occurrence; \<open>None\<close> when it does not occur.
\<close>

fun split_once :: "string \<Rightarrow> string \<Rightarrow> (string \<times> string) option" where
  "split_once sep [] = (if sep = [] then Some ([], []) else None)"
| "split_once sep (c # cs) =
    (if prefix sep (c # cs) then Some ([], drop (length sep) (c # cs))
     else (case split_once sep cs of
             None \<Rightarrow> None
           | Some (before, after) \<Rightarrow> Some (c # before, after)))"

text \<open>\<^verbatim>\<open>str.strip()\<close>: the ASCII characters for which \<^verbatim>\<open>isspace\<close> holds.\<close>

definition is_space :: "char \<Rightarrow> bool" where
  "is_space c \<longleftrightarrow>
    c \<in> set [CHR 0x09, CHR 0x0A, CHR 0x0B, CHR 0x0C, CHR 0x0D,
              CHR 0x1C, CHR 0x1D, CHR 0x1E, CHR 0x1F, CHR 0x20]"

definition strip :: "string \<Rightarrow> string" where
  "strip s = rev (dropWhile is_space (rev (dropWhile is_space s)))"

text \<open>
  The test \<^verbatim>\<open>"```json" in content and "```" in content.split("```json", 1)[1]\<close> together
  with the extraction \<^verbatim>\<open>content.split("```json", 1)[1].split("```", 1)[0].strip()\<close>.
\<close>

definition fenced_block :: "string \<Rightarrow> string option" where
  "fenced_block content =
    (case split_once ''```json'' content of
       None \<Rightarrow> None
     | Some (_, rest) \<Rightarrow>
        (case split_once ''```'' rest of
           None \<Rightarrow> None
         | Some (block, _) \<Rightarrow> Some (strip block)))"

text \<open>
  The first attempt: \<^verbatim>\<open>robust_json_parser(content)\<close> followed, inside the same \<^verbatim>\<open>try\<close>,
  by a print of \<^verbatim>\<open>list(recommendation_json.keys())\<close> when the result is truthy, which
  raises on a truthy value that is no dictionary.
\<close>

definition robust_attempt :: "externals \<Rightarrow> string \<Rightarrow> exn + json" where
  "robust_attempt ext content =
    ebind (robust_json_parser ext content) (\<lambda>recommendation_json.
    if truthy recommendation_json \<and> \<not> is_dict recommendation_json then Inl AttributeError
    else Inr recommendation_json)"

text \<open>
  The parsing of the response (the nested \<^verbatim>\<open>try\<close> blocks). \<open>None\<close> is the
  \<^verbatim>\<open>return None\<close> of the module when every attempt has failed.
\<close>

definition parse_response :: "externals \<Rightarrow> string \<Rightarrow> json option" where
  "parse_response ext content =
    (case robust_attempt ext content of
       Inr recommendation_json \<Rightarrow> Some recommendation_json
     | Inl parser_error \<Rightarrow>
        (case fenced_block content of
           Some json_content \<Rightarrow>
             (case json_loads ext json_content of
                Some recommendation_json \<Rightarrow> Some recommendation_json
              | None \<Rightarrow> json_loads ext content)
         | None \<Rightarrow> json_loads ext content))"

text \<open>The check that the answer refers to the scores, and the annotation of the answer.\<close>

definition score_terms :: "string list" where
  "score_terms =
    [''pews'', ''trap'', ''prism'', ''cameo'', ''queensland'', ''chews'', ''tps'',
     ''score'', ''scoring'', ''pediatric score'', ''severity score'']"

definition fields_to_check :: "string list" where
  "fields_to_check =
    [''clinical_reasoning'', ''justification'', ''reasoning'', ''rationale'', ''notes'',
     ''considerations'']"

definition count_terms :: "string \<Rightarrow> nat" where
  "count_terms field_text =
    length (filter (\<lambda>term. str_contains (str_lower field_text) (str_lower term)) score_terms)"

fun score_references :: "json \<Rightarrow> string list \<Rightarrow> nat \<Rightarrow> exn + nat" where
  "score_references rj [] n = Inr n"
| "score_references rj (field # rest) n =
    (case present_truthy rj field of
       Inl e \<Rightarrow> Inl e
     | Inr None \<Rightarrow> score_references rj rest n
     | Inr (Some (JList xs)) \<Rightarrow>
        (case py_join '' '' xs of
           Inl e \<Rightarrow> Inl e
         | Inr field_text \<Rightarrow> score_references rj rest (n + count_terms field_text))
     | Inr (Some (JStr field_text)) \<Rightarrow> score_references rj rest (n + count_terms field_text)
     | Inr (Some _) \<Rightarrow> score_references rj rest n)"

text \<open>\<^verbatim>\<open>x[key] = value\<close> for a string key.\<close>

fun py_setitem :: "json \<Rightarrow> string \<Rightarrow> json \<Rightarrow> exn + json" where
  "py_setitem (JDict d) k v = Inr (JDict (AList.update k v d))"
| "py_setitem _ k v = Inl TypeError"

definition annotate_scores :: "json \<Rightarrow> bool \<Rightarrow> nat \<Rightarrow> exn + json" where
  "annotate_scores recommendation_json has_scores score_count =
    (if has_scores \<and> truthy recommendation_json then
       ebind (score_references recommendation_json fields_to_check 0) (\<lambda>refs.
       py_setitem recommendation_json ''score_utilization''
         (JDict [(''pediatric_scores_available'', JInt (int score_count)),
                 (''referenced_in_reasoning'', JBool (refs > 0)),
                 (''reference_count'', JInt (int refs))]))
     else Inr recommendation_json)"

text \<open>
  The body of the outer \<^verbatim>\<open>try\<close> of \<^verbatim>\<open>_try_llm_recommendation\<close>. Slicing the content for
  the log raises when the content is \<^verbatim>\<open>None\<close>. An exception while the answer is
  processed is caught by the inner handler, which returns \<^verbatim>\<open>None\<close>.
\<close>

definition try_llm_body ::
    "generator \<Rightarrow> externals \<Rightarrow> dict \<Rightarrow> dict \<Rightarrow> dict option \<Rightarrow> exn + recommendation option" where
  "try_llm_body self ext extracted_entities specialty_assessment exclusion_evaluation =
    ebind (build_recommendation_prompt ext extracted_entities specialty_assessment exclusion_evaluation)
      (\<lambda>(prompt, has_scores, score_count).
    ebind (client self (model self)
             [(''system'', system_message), (''user'', prompt @ json_instructions)]) (\<lambda>choices.
    ebind (case choices of [] \<Rightarrow> Inl IndexError | first_choice # _ \<Rightarrow> Inr first_choice) (\<lambda>first_choice.
    ebind (case message_content first_choice of None \<Rightarrow> Inl TypeError | Some text \<Rightarrow> Inr text) (\<lambda>content.
    case parse_response ext content of
      None \<Rightarrow> Inr None
    | Some recommendation_json \<Rightarrow>
       (case annotate_scores recommendation_json has_scores score_count of
          Inl e \<Rightarrow> Inr None
        | Inr annotated \<Rightarrow> Inr (Some (convert_to_recommendation ext annotated)))))))"

text \<open>\<^verbatim>\<open>_try_llm_recommendation\<close>: the outer handler turns every exception into \<^verbatim>\<open>None\<close>.\<close>

definition try_llm_recommendation ::
    "generator \<Rightarrow> externals \<Rightarrow> dict \<Rightarrow> dict \<Rightarrow> dict option \<Rightarrow> recommendation option" where
  "try_llm_recommendation self ext extracted_entities specialty_assessment exclusion_evaluation =
    (case try_llm_body self ext extracted_entities specialty_assessment exclusion_evaluation of
       Inl e \<Rightarrow> None
     | Inr result \<Rightarrow> result)"

section \<open>The entry point\<close>

text \<open>
  \<^verbatim>\<open>generate_recommendation\<close>. A Recommendation object is truthy, so \<^verbatim>\<open>if llm_result\<close>
  asks whether the attempt returned one. Otherwise the module builds the dictionary
  \<^verbatim>\<open>recommendation_data\<close>, halves what the confidence calculator returns for it and
  returns a Recommendation for the campus \<^verbatim>\<open>"ERROR"\<close>; this part is outside every
  \<^verbatim>\<open>try\<close>, so an exception of the calculator reaches the caller.
\<close>

definition recommendation_data :: "dict \<Rightarrow> dict" where
  "recommendation_data extracted_entities =
    [(''patient_demographics'', dict_get extracted_entities ''demographics'' (JDict [])),
     (''clinical_history'', JStr ''''),
     (''chief_complaint'', JStr ''''),
     (''extracted_vital_signs'', JDict [])]"

definition generate_recommendation ::
    "generator \<Rightarrow> externals \<Rightarrow> dict \<Rightarrow> dict \<Rightarrow> dict option \<Rightarrow> exn + recommendation" where
  "generate_recommendation self ext extracted_entities specialty_assessment exclusion_evaluation =
    (case try_llm_recommendation self ext extracted_entities specialty_assessment exclusion_evaluation of
       Some llm_result \<Rightarrow> Inr llm_result
     | None \<Rightarrow>
        ebind (calculate_recommendation_confidence ext (JDict (recommendation_data extracted_entities)))
          (\<lambda>calculated.
        let confidence = flt_half calculated in
        Inr \<lparr> transfer_request_id = ''error'',
              recommended_campus_id = JStr ''ERROR'',
              confidence_score = confidence,
              reason = JStr ''Failed to generate a recommendation with the LLM'',
              notes' = [''LLM error - please check the logs and try again''],
              explainability_details = recommendation_data extracted_entities \<rparr>))"


section \<open>The objects of a call\<close>

text \<open>
  Python passes the three dictionaries by reference, and the module changes objects in
  place: it assigns \<^verbatim>\<open>recommendation_json["score_utilization"]\<close> and it fills
  \<^verbatim>\<open>standardized\<close>. To say which objects a call changes, the objects live in a store,
  addressed by position. A new object is appended; an assignment into an object
  replaces the value at its address. The functions below are the functions above with
  the store made explicit: they read the inputs at their addresses, allocate the parsed
  response and \<^verbatim>\<open>standardized\<close>, and write where the module assigns. Lists
  and dictionaries that are built and used within one function only (\<^verbatim>\<open>notes\<close>,
  \<^verbatim>\<open>key_factors\<close>, \<^verbatim>\<open>explainability_details\<close>, \<^verbatim>\<open>recommendation_data\<close>, the lists of the
  prompt) stay values. When a statement raises, the store is the one before that
  statement.
\<close>

type_synonym store = "json list"

definition alloc :: "store \<Rightarrow> json \<Rightarrow> nat \<times> store" where
  "alloc st v = (length st, st @ [v])"

definition store_write :: "store \<Rightarrow> nat \<Rightarrow> json \<Rightarrow> store" where
  "store_write st a v = st[a := v]"

definition load_dict :: "store \<Rightarrow> nat \<Rightarrow> dict" where
  "load_dict st a = (case st ! a of JDict d \<Rightarrow> d | _ \<Rightarrow> [])"

text \<open>
  \<^verbatim>\<open>_standardize_llm_response\<close> on the store: the response is at \<open>a_rj\<close>; \<^verbatim>\<open>standardized\<close>
  is allocated with the template and then written three times (after the mapping
  loops, for \<^verbatim>\<open>original_response\<close>, after the copying loop). The result is its address.
\<close>

definition standardize_llm_response_on :: "store \<Rightarrow> nat \<Rightarrow> (exn + nat) \<times> store" where
  "standardize_llm_response_on st a_rj =
    (let (a_std, st1) = alloc st (JDict template) in
     case map_fields (st1 ! a_rj) field_mappings (load_dict st1 a_std) of
       Inl e \<Rightarrow> (Inl e, st1)
     | Inr std1 \<Rightarrow>
        let st2 = store_write st1 a_std (JDict std1);
            st3 = store_write st2 a_std
                    (JDict (AList.update ''original_response'' (st2 ! a_rj) (load_dict st2 a_std)))
        in case py_items (st3 ! a_rj) of
             Inl e \<Rightarrow> (Inl e, st3)
           | Inr items \<Rightarrow>
              let st4 = store_write st3 a_std (JDict (add_other_fields items (load_dict st3 a_std)))
              in case ebind (py_getitem (st4 ! a_std) ''campus_id'') (\<lambda>_.
                      ebind (py_getitem (st4 ! a_std) ''reason'') (\<lambda>reason.
                      ebind (py_sliceable reason) (\<lambda>_.
                      py_getitem (st4 ! a_std) ''care_level''))) of
                   Inl e \<Rightarrow> (Inl e, st4)
                 | Inr _ \<Rightarrow> (Inr a_std, st4))"

text \<open>
  \<^verbatim>\<open>_convert_to_recommendation\<close> on the store. After the standardisation nothing is
  assigned into an object that outlives the function, so the rest is the computation
  of \<open>convert_body\<close> on the values read from the store.
\<close>

definition convert_rest :: "externals \<Rightarrow> json \<Rightarrow> dict \<Rightarrow> exn + recommendation" where
  "convert_rest ext recommendation_json standardized =
    (let campus_name = dict_get standardized ''campus_id'' (JStr ''No specific campus recommended'');
        backup_campus = dict_get standardized ''backup_campus'' (JStr ''No backup campus specified'') in
    ebind (py_float ext (dict_get standardized ''backup_confidence_score'' (JFloat (Finite 0)))) (\<lambda>backup_confidence.
    ebind (py_float ext (dict_get standardized ''confidence_score'' (JFloat (Finite 70)))) (\<lambda>confidence0.
    let confidence = (if flt_lt confidence0 (Finite 0) \<or> flt_lt (Finite 100) confidence0
                      then Finite 70 else confidence0);
        all_data = dict_get standardized ''all_data''
                     (dict_get standardized ''original_response'' (JDict [])) in
    ebind (py_get all_data ''demographics'' (JDict [])) (\<lambda>demographics.
    ebind (py_get all_data ''chief_complaint'' (JStr '''')) (\<lambda>chief_complaint.
    ebind (py_get all_data ''clinical_history'' (JStr '''')) (\<lambda>clinical_history.
    ebind (py_get all_data ''vital_signs'' (JDict [])) (\<lambda>vital_signs.
    ebind (py_lower (dict_get standardized ''care_level'' (JStr ''general''))) (\<lambda>care_level.
    let level_display = care_level_display care_level;
        notes = [''Care Level: '' @ level_display,
                 ''\<newline>Backup Recommendation: '' @ py_str ext backup_campus
                   @ '' (Confidence: '' @ fmt_1f ext backup_confidence @ ''%)''];
        final_reason = dict_get standardized ''reason''
                         (JStr ''Recommendation generated without detailed reasoning.'') in
    ebind (build_explainability ext recommendation_json level_display) (\<lambda>explainability.
    ebind (py_sliceable final_reason) (\<lambda>_.
    Inr \<lparr> transfer_request_id = ''llm_generated'',
          recommended_campus_id = campus_name,
          confidence_score = confidence,
          reason = final_reason,
          notes' = notes,
          explainability_details = standardized \<rparr>))))))))))"

definition convert_to_recommendation_on ::
    "externals \<Rightarrow> store \<Rightarrow> nat \<Rightarrow> recommendation \<times> store" where
  "convert_to_recommendation_on ext st a_rj =
    (case standardize_llm_response_on st a_rj of
       (Inl e, st1) \<Rightarrow> (conversion_error ext e, st1)
     | (Inr a_std, st1) \<Rightarrow>
        (case convert_rest ext (st1 ! a_rj) (load_dict st1 a_std) of
           Inl e \<Rightarrow> (conversion_error ext e, st1)
         | Inr r \<Rightarrow> (r, st1)))"

text \<open>
  \<^verbatim>\<open>_try_llm_recommendation\<close> on the store: the inputs are read at their addresses, the
  parsed response is a new object, and the annotation is written into it.
\<close>

definition try_llm_recommendation_on ::
    "generator \<Rightarrow> externals \<Rightarrow> store \<Rightarrow> nat \<Rightarrow> nat \<Rightarrow> nat option
      \<Rightarrow> recommendation option \<times> store" where
  "try_llm_recommendation_on self ext st a_entities a_specialty a_exclusion =
    (case ebind (build_recommendation_prompt ext (load_dict st a_entities)
                   (load_dict st a_specialty) (map_option (load_dict st) a_exclusion))
            (\<lambda>(prompt, has_scores, score_count).
          ebind (client self (model self)
                   [(''system'', system_message), (''user'', prompt @ json_instructions)]) (\<lambda>choices.
          ebind (case choices of [] \<Rightarrow> Inl IndexError | first_choice # _ \<Rightarrow> Inr first_choice) (\<lambda>first_choice.
          ebind (case message_content first_choice of None \<Rightarrow> Inl TypeError | Some text \<Rightarrow> Inr text) (\<lambda>content.
          Inr (content, has_scores, score_count))))) of
       Inl e \<Rightarrow> (None, st)
     | Inr (content, has_scores, score_count) \<Rightarrow>
        (case parse_response ext content of
           None \<Rightarrow> (None, st)
         | Some parsed \<Rightarrow>
            let (a_rj, st1) = alloc st parsed in
            (case annotate_scores (st1 ! a_rj) has_scores score_count of
               Inl e \<Rightarrow> (None, st1)
             | Inr annotated \<Rightarrow>
                let st2 = store_write st1 a_rj annotated;
                    (r, st3) = convert_to_recommendation_on ext st2 a_rj
                in (Some r, st3))))"

text \<open>\<^verbatim>\<open>generate_recommendation\<close> on the store.\<close>

definition generate_recommendation_on ::
    "generator \<Rightarrow> externals \<Rightarrow> store \<Rightarrow> nat \<Rightarrow> nat \<Rightarrow> nat option
      \<Rightarrow> (exn + recommendation) \<times> store" where
  "generate_recommendation_on self ext st a_entities a_specialty a_exclusion =
    (case try_llm_recommendation_on self ext st a_entities a_specialty a_exclusion of
       (Some llm_result, st1) \<Rightarrow> (Inr llm_result, st1)
     | (None, st1) \<Rightarrow>
        (ebind (calculate_recommendation_confidence ext
                  (JDict (recommendation_data (load_dict st1 a_entities))))
           (\<lambda>calculated.
           Inr \<lparr> transfer_request_id = ''error'',
                 recommended_campus_id = JStr ''ERROR'',
                 confidence_score = flt_half calculated,
                 reason = JStr ''Failed to generate a recommendation with the LLM'',
                 notes' = [''LLM error - please check the logs and try again''],
                 explainability_details = recommendation_data (load_dict st1 a_entities) \<rparr>),
         st1))"

section \<open>The parsing attempts as a list\<close>








section \<open>A concrete environment for the examples\<close>

text \<open>
  The examples fix the outside world. \<^verbatim>\<open>json.loads\<close> is given by a table of the texts
  that occur; \<^verbatim>\<open>robust_json_parser\<close> is taken to parse the whole text with it. A string
  is rendered as itself. The confidence calculator of the examples returns 80 when the
  data holds patient demographics and 20 when it does not.
\<close>

definition ex_calculator :: "json \<Rightarrow> exn + pyfloat" where
  "ex_calculator data =
    (case data of
       JDict d \<Rightarrow> if truthy (dict_get d ''patient_demographics'' (JDict []))
                  then Inr (Finite 80) else Inr (Finite 20)
     | _ \<Rightarrow> Inr (Finite 20))"

definition ex_externals :: "(string \<times> json) list \<Rightarrow> externals" where
  "ex_externals table =
    \<lparr> py_str = (\<lambda>v. case v of JStr s \<Rightarrow> s | _ \<Rightarrow> ''<value>''),
      fmt_1f = (\<lambda>f. if f = Finite 0 then ''0.0'' else ''<float>''),
      float_of_str = (\<lambda>s. if s = ''nan'' then Some NaN else None),
      str_exn = (\<lambda>e. ''<exception>''),
      json_loads = map_of table,
      robust_json_parser = (\<lambda>s. case map_of table s of Some v \<Rightarrow> Inr v | None \<Rightarrow> Inl ValueError),
      calculate_recommendation_confidence = ex_calculator \<rparr>"

definition failing_generator :: generator where
  "failing_generator = \<lparr> client = (\<lambda>m msgs. Inl BackendError), model = ''local-model'' \<rparr>"

definition replying_generator :: "string \<Rightarrow> generator" where
  "replying_generator reply =
    \<lparr> client = (\<lambda>m msgs. Inr [\<lparr> message_content = Some reply, finish_reason = ''stop'' \<rparr>]),
      model = ''local-model'' \<rparr>"

definition ex_entities :: dict where
  "ex_entities =
    [(''demographics'', JDict [(''age'', JInt 3), (''weight'', JInt 14)]),
     (''vital_signs'', JDict [(''hr'', JInt 145), (''rr'', JInt 35)]),
     (''clinical_info'', JDict [(''chief_complaint'', JStr ''respiratory distress'')])]"

definition ex_specialty :: dict where
  "ex_specialty =
    [(''recommended_care_level'', JStr ''PICU''),
     (''scoring_results'',
      JDict [(''scores'', JDict [(''pews'', JDict [(''total_score'', JInt 7)])]),
             (''recommended_care_levels'', JDict [(''pews'', JStr ''PICU'')])])]"

definition ex_exclusion :: "dict option" where
  "ex_exclusion =
    Some [(''excluded_campuses'', JList [JStr ''Woodlands'']),
          (''recommended_campus'', JStr ''Main Campus'')]"

definition reply_nan :: string where
  \<open>reply_nan = ''{"recommended_campus": "Main Campus", "confidence_score": NaN}''\<close>

definition reply_nan_json :: json where
  "reply_nan_json =
    JDict [(''recommended_campus'', JStr ''Main Campus''), (''confidence_score'', JFloat NaN)]"

definition reply_words :: string where
  \<open>reply_words = ''{"recommended_campus": "Main Campus", "confidence_score": "high"}''\<close>

definition reply_words_json :: json where
  "reply_words_json =
    JDict [(''recommended_campus'', JStr ''Main Campus''), (''confidence_score'', JStr ''high'')]"

definition reply_large :: string where
  \<open>reply_large = ''{"recommended_campus": "Main Campus", "confidence_score": 120}''\<close>

definition reply_large_json :: json where
  "reply_large_json =
    JDict [(''recommended_campus'', JStr ''Main Campus''), (''confidence_score'', JInt 120)]"

definition reply_plain :: string where
  \<open>reply_plain = ''{"recommended_campus": "Main Campus"}''\<close>

definition reply_plain_json :: json where
  "reply_plain_json = JDict [(''recommended_campus'', JStr ''Main Campus'')]"


definition reply_general :: string where
  \<open>reply_general = ''{"recommended_campus": "Main Campus", "care_level": "general_floor", "clinical_reasoning": "Stable child, PEWS noted."}''\<close>

definition reply_general_json :: json where
  "reply_general_json =
    JDict [(''recommended_campus'', JStr ''Main Campus''), (''care_level'', JStr ''general_floor''),
           (''clinical_reasoning'', JStr ''Stable child, PEWS noted.'')]"

definition reply_far :: string where
  \<open>reply_far = ''{"recommended_campus": "Woodlands", "backup_campus": "Main Campus", "campus_scores": {"primary": {"location": 1, "specific_resources": 3}, "backup": {"location": 5, "specific_resources": 3}}}''\<close>

definition reply_far_json :: json where
  "reply_far_json =
    JDict [(''recommended_campus'', JStr ''Woodlands''),
           (''backup_campus'', JStr ''Main Campus''),
           (''campus_scores'',
            JDict [(''primary'', JDict [(''location'', JInt 1), (''specific_resources'', JInt 3)]),
                   (''backup'', JDict [(''location'', JInt 5), (''specific_resources'', JInt 3)])])]"

definition reply_empty :: string where
  "reply_empty = ''{}''"

definition ex_table :: "(string \<times> json) list" where
  "ex_table =
    [(reply_nan, reply_nan_json), (reply_words, reply_words_json),
     (reply_large, reply_large_json), (reply_plain, reply_plain_json),
     (reply_general, reply_general_json), (reply_far, reply_far_json),
     (reply_empty, JDict [])]"

text \<open>What a result shows of a Recommendation, when there is one.\<close>

definition observe :: "(recommendation \<Rightarrow> 'a) \<Rightarrow> exn + recommendation \<Rightarrow> 'a option" where
  "observe f res = (case res of Inr r \<Rightarrow> Some (f r) | Inl e \<Rightarrow> None)"

definition ex_store :: store where
  "ex_store = [JDict ex_entities, JDict ex_specialty, JDict (the ex_exclusion)]"

definition ex_result :: "string \<Rightarrow> exn + recommendation" where
  "ex_result reply =
    generate_recommendation (replying_generator reply) (ex_externals ex_table) ex_entities
      ex_specialty ex_exclusion"

section \<open>Basic facts\<close>

lemma ebind_Inr_iff: "ebind m f = Inr y \<longleftrightarrow> (\<exists>x. m = Inr x \<and> f x = Inr y)"
  by (cases m) (simp_all add: ebind_def)

lemma ebind_Inl_iff: "ebind m f = Inl e \<longleftrightarrow> m = Inl e \<or> (\<exists>x. m = Inr x \<and> f x = Inl e)"
  by (cases m) (simp_all add: ebind_def)

lemma flt_range:
  assumes "\<not> flt_lt c (Finite 0)" and "\<not> flt_lt (Finite 100) c"
  shows "c = NaN \<or> (\<exists>q. c = Finite q \<and> 0 \<le> q \<and> q \<le> 100)"
  using assms by (cases c) auto

subsection \<open>The conversion\<close>

lemma convert_body_confidence:
  assumes "convert_body ext rj = Inr r"
  shows "\<exists>std c. standardize_llm_response rj = Inr std
           \<and> py_float ext (dict_get std ''confidence_score'' (JFloat (Finite 70))) = Inr c
           \<and> confidence_score r =
               (if flt_lt c (Finite 0) \<or> flt_lt (Finite 100) c then Finite 70 else c)"
  using assms unfolding convert_body_def Let_def ebind_Inr_iff
  by auto



subsection \<open>The attempt and the entry point\<close>

lemma generate_cases:
  assumes "generate_recommendation self ext ents spec excl = Inr r"
  shows "try_llm_recommendation self ext ents spec excl = Some r
       \<or> (try_llm_recommendation self ext ents spec excl = None
          \<and> (\<exists>c. calculate_recommendation_confidence ext (JDict (recommendation_data ents)) = Inr c
               \<and> r = \<lparr> transfer_request_id = ''error'',
                        recommended_campus_id = JStr ''ERROR'',
                        confidence_score = flt_half c,
                        reason = JStr ''Failed to generate a recommendation with the LLM'',
                        notes' = [''LLM error - please check the logs and try again''],
                        explainability_details = recommendation_data ents \<rparr>))"
  using assms
  by (auto simp: generate_recommendation_def ebind_Inr_iff Let_def split: option.splits)

lemma client_failure:
  assumes "\<forall>msgs. \<exists>e. client self (model self) msgs = Inl e"
  shows "try_llm_recommendation self ext ents spec excl = None"
proof (cases "build_recommendation_prompt ext ents spec excl")
  case (Inl e)
  then show ?thesis by (simp add: try_llm_recommendation_def try_llm_body_def ebind_def)
next
  case (Inr p)
  obtain prompt has_scores score_count where p: "p = (prompt, has_scores, score_count)"
    by (cases p) auto
  from assms obtain e where
    "client self (model self)
       [(''system'', system_message), (''user'', prompt @ json_instructions)] = Inl e"
    by blast
  with Inr p show ?thesis
    by (simp add: try_llm_recommendation_def try_llm_body_def ebind_def)
qed

subsection \<open>The standardised response\<close>

lemma first_source_dict_total: "\<exists>vo. first_source (JDict d) ss = Inr vo"
proof (induction ss)
  case Nil
  then show ?case by simp
next
  case (Cons s ss)
  show ?case
  proof (cases "map_of d s")
    case None
    then have "s \<notin> fst ` set d" by (simp add: map_of_eq_None_iff)
    with None Cons show ?thesis by simp
  next
    case (Some v)
    then have "s \<in> fst ` set d" by (metis map_of_eq_None_iff option.distinct(1))
    with Some Cons show ?thesis by simp
  qed
qed

text \<open>What the inner loop finds in a dictionary: the value of the first source field
  whose value is truthy.\<close>

lemma first_source_dict_Some:
  "first_source (JDict d) ss = Inr (Some v) \<longleftrightarrow>
     (\<exists>pre s post. ss = pre @ s # post \<and> map_of d s = Some v \<and> truthy v
        \<and> (\<forall>s' \<in> set pre. \<forall>v'. map_of d s' = Some v' \<longrightarrow> \<not> truthy v'))"
proof (induction ss)
  case Nil
  then show ?case by simp
next
  case (Cons a ss)
  show ?case
  proof (cases "map_of d a")
    case None
    then have notin: "a \<notin> fst ` set d" by (simp add: map_of_eq_None_iff)
    have "first_source (JDict d) (a # ss) = first_source (JDict d) ss"
      using notin by simp
    moreover have "(\<exists>pre s post. a # ss = pre @ s # post \<and> map_of d s = Some v \<and> truthy v
        \<and> (\<forall>s' \<in> set pre. \<forall>v'. map_of d s' = Some v' \<longrightarrow> \<not> truthy v'))
      \<longleftrightarrow> (\<exists>pre s post. ss = pre @ s # post \<and> map_of d s = Some v \<and> truthy v
        \<and> (\<forall>s' \<in> set pre. \<forall>v'. map_of d s' = Some v' \<longrightarrow> \<not> truthy v'))"
      (is "?L \<longleftrightarrow> ?R")
    proof
      assume ?L
      then obtain pre s post where h: "a # ss = pre @ s # post" "map_of d s = Some v" "truthy v"
        "\<forall>s' \<in> set pre. \<forall>v'. map_of d s' = Some v' \<longrightarrow> \<not> truthy v'" by blast
      show ?R
      proof (cases pre)
        case Nil
        with h None show ?thesis by simp
      next
        case (Cons p pre')
        with h have "ss = pre' @ s # post" "\<forall>s' \<in> set pre'. \<forall>v'. map_of d s' = Some v' \<longrightarrow> \<not> truthy v'"
          by auto
        with h show ?thesis by blast
      qed
    next
      assume ?R
      then obtain pre s post where h: "ss = pre @ s # post" "map_of d s = Some v" "truthy v"
        "\<forall>s' \<in> set pre. \<forall>v'. map_of d s' = Some v' \<longrightarrow> \<not> truthy v'" by blast
      then have "a # ss = (a # pre) @ s # post"
        "\<forall>s' \<in> set (a # pre). \<forall>v'. map_of d s' = Some v' \<longrightarrow> \<not> truthy v'"
        using None by auto
      with h show ?L by blast
    qed
    ultimately show ?thesis using Cons by simp
  next
    case (Some w)
    then have isin: "a \<in> fst ` set d" by (metis map_of_eq_None_iff option.distinct(1))
    show ?thesis
    proof (cases "truthy w")
      case True
      have "first_source (JDict d) (a # ss) = Inr (Some w)"
        using isin Some True by simp
      moreover have "(\<exists>pre s post. a # ss = pre @ s # post \<and> map_of d s = Some v \<and> truthy v
        \<and> (\<forall>s' \<in> set pre. \<forall>v'. map_of d s' = Some v' \<longrightarrow> \<not> truthy v')) \<longleftrightarrow> v = w"
        (is "?L \<longleftrightarrow> _")
      proof
        assume ?L
        then obtain pre s post where h: "a # ss = pre @ s # post" "map_of d s = Some v" "truthy v"
          "\<forall>s' \<in> set pre. \<forall>v'. map_of d s' = Some v' \<longrightarrow> \<not> truthy v'" by blast
        show "v = w"
        proof (cases pre)
          case Nil
          with h Some show ?thesis by simp
        next
          case (Cons p pre')
          with h have "a \<in> set pre" by simp
          with h Some True show ?thesis by blast
        qed
      next
        assume "v = w"
        then have "a # ss = [] @ a # ss" "map_of d a = Some v" "truthy v"
          using Some True by simp_all
        then show ?L by (metis empty_iff list.set(1))
      qed
      ultimately show ?thesis by auto
    next
      case False
      have "first_source (JDict d) (a # ss) = first_source (JDict d) ss"
        using isin Some False by simp
      moreover have "(\<exists>pre s post. a # ss = pre @ s # post \<and> map_of d s = Some v \<and> truthy v
          \<and> (\<forall>s' \<in> set pre. \<forall>v'. map_of d s' = Some v' \<longrightarrow> \<not> truthy v'))
        \<longleftrightarrow> (\<exists>pre s post. ss = pre @ s # post \<and> map_of d s = Some v \<and> truthy v
          \<and> (\<forall>s' \<in> set pre. \<forall>v'. map_of d s' = Some v' \<longrightarrow> \<not> truthy v'))"
        (is "?L \<longleftrightarrow> ?R")
      proof
        assume ?L
        then obtain pre s post where h: "a # ss = pre @ s # post" "map_of d s = Some v" "truthy v"
          "\<forall>s' \<in> set pre. \<forall>v'. map_of d s' = Some v' \<longrightarrow> \<not> truthy v'" by blast
        show ?R
        proof (cases pre)
          case Nil
          with h Some False show ?thesis by simp
        next
          case (Cons p pre')
          with h have "ss = pre' @ s # post" "\<forall>s' \<in> set pre'. \<forall>v'. map_of d s' = Some v' \<longrightarrow> \<not> truthy v'"
            by auto
          with h show ?thesis by blast
        qed
      next
        assume ?R
        then obtain pre s post where h: "ss = pre @ s # post" "map_of d s = Some v" "truthy v"
          "\<forall>s' \<in> set pre. \<forall>v'. map_of d s' = Some v' \<longrightarrow> \<not> truthy v'" by blast
        then have "a # ss = (a # pre) @ s # post"
          "\<forall>s' \<in> set (a # pre). \<forall>v'. map_of d s' = Some v' \<longrightarrow> \<not> truthy v'"
          using Some False by auto
        with h show ?L by blast
      qed
      ultimately show ?thesis using Cons by simp
    qed
  qed
qed

lemma map_fields_dict:
  "\<exists>std1. map_fields (JDict d) field_mappings template = Inr std1
     \<and> map fst std1 = map fst template
     \<and> (\<forall>target sources. (target, sources) \<in> set field_mappings \<longrightarrow>
           map_of std1 target =
             Some (case first_source (JDict d) sources of
                     Inr (Some v) \<Rightarrow> v
                   | _ \<Rightarrow> the (map_of template target)))"
proof -
  obtain v1 where v1: "first_source (JDict d)
      [''recommended_campus'', ''campus_id'', ''campus'', ''hospital'', ''facility''] = Inr v1"
    using first_source_dict_total by blast
  obtain v2 where v2: "first_source (JDict d)
      [''clinical_reasoning'', ''reasoning'', ''reason'', ''justification'', ''rationale''] = Inr v2"
    using first_source_dict_total by blast
  obtain v3 where v3: "first_source (JDict d) [''confidence_score'', ''confidence'', ''score''] = Inr v3"
    using first_source_dict_total by blast
  obtain v4 where v4: "first_source (JDict d)
      [''care_level'', ''level_of_care'', ''recommended_care_level''] = Inr v4"
    using first_source_dict_total by blast
  show ?thesis
    unfolding field_mappings_def template_def
    by (cases v1; cases v2; cases v3; cases v4)
       (simp_all del: first_source.simps add: v1 v2 v3 v4)
qed

lemma map_of_add_other_fields:
  "map_of (add_other_fields items std) k =
     (case map_of std k of Some v \<Rightarrow> Some v | None \<Rightarrow> map_of items k)"
proof (induction items arbitrary: std)
  case Nil
  then show ?case by (simp split: option.splits)
next
  case (Cons p items)
  obtain key val where p: "p = (key, val)" by (cases p)
  show ?case
  proof (cases "map_of std key")
    case None
    then have "key \<notin> set (map fst std)" by (simp add: map_of_eq_None_iff)
    then have "map_of (add_other_fields (p # items) std) k =
               map_of (add_other_fields items (AList.update key val std)) k"
      by (simp add: p)
    also have "\<dots> = (case map_of (AList.update key val std) k of
                          Some v \<Rightarrow> Some v | None \<Rightarrow> map_of items k)"
      by (rule Cons.IH)
    also have "\<dots> = (case map_of std k of Some v \<Rightarrow> Some v | None \<Rightarrow> map_of (p # items) k)"
      using None by (simp add: p update_conv' split: option.splits)
    finally show ?thesis .
  next
    case (Some w)
    then have "key \<in> set (map fst std)" by (metis map_of_eq_None_iff option.distinct(1) set_map)
    then have "map_of (add_other_fields (p # items) std) k = map_of (add_other_fields items std) k"
      by (simp add: p)
    also have "\<dots> = (case map_of std k of Some v \<Rightarrow> Some v | None \<Rightarrow> map_of items k)"
      by (rule Cons.IH)
    also have "\<dots> = (case map_of std k of Some v \<Rightarrow> Some v | None \<Rightarrow> map_of (p # items) k)"
      using Some by (auto simp: p split: option.splits)
    finally show ?thesis .
  qed
qed

lemma keys_add_other_fields:
  "fst ` set (add_other_fields items std) = fst ` set std \<union> fst ` set items"
proof -
  have "dom (map_of (add_other_fields items std)) = dom (map_of std) \<union> dom (map_of items)"
    by (auto simp: map_of_add_other_fields dom_def split: option.splits)
  then show ?thesis by (simp add: dom_map_of_conv_image_fst)
qed

lemma standardize_dict:
  assumes "standardize_llm_response rj = Inr std"
  shows "\<exists>d. rj = JDict d
     \<and> fst ` set std =
         {''campus_id'', ''reason'', ''confidence_score'', ''care_level'', ''notes'',
          ''original_response''} \<union> fst ` set d
     \<and> map_of std ''original_response'' = Some rj
     \<and> (\<forall>target sources. (target, sources) \<in> set field_mappings \<longrightarrow>
           map_of std target =
             Some (case first_source rj sources of
                     Inr (Some v) \<Rightarrow> v
                   | _ \<Rightarrow> the (map_of template target)))"
proof -
  from assms obtain std1 d where
    mf: "map_fields rj field_mappings template = Inr std1" and
    items: "py_items rj = Inr d" and
    std: "std = add_other_fields d (AList.update ''original_response'' rj std1)"
    unfolding standardize_llm_response_def Let_def ebind_Inr_iff by auto
  from items have rj: "rj = JDict d" by (cases rj) auto
  from map_fields_dict [of d] mf rj have
    keys1: "map fst std1 = map fst template" and
    fields1: "\<forall>target sources. (target, sources) \<in> set field_mappings \<longrightarrow>
           map_of std1 target =
             Some (case first_source rj sources of
                     Inr (Some v) \<Rightarrow> v
                   | _ \<Rightarrow> the (map_of template target))"
    by auto
  from keys1 have k1: "fst ` set std1 = {''campus_id'', ''reason'', ''confidence_score'', ''care_level'', ''notes''}"
  proof -
    from keys1 have "set (map fst std1) = set (map fst template)" by simp
    then show ?thesis by (simp add: template_def)
  qed
  have keys: "fst ` set std =
         {''campus_id'', ''reason'', ''confidence_score'', ''care_level'', ''notes'',
          ''original_response''} \<union> fst ` set d"
    unfolding std keys_add_other_fields
    using k1 by (simp add: dom_update insert_commute)
  have orig: "map_of std ''original_response'' = Some rj"
    unfolding std by (simp add: map_of_add_other_fields update_conv')
  have fields: "\<forall>target sources. (target, sources) \<in> set field_mappings \<longrightarrow>
           map_of std target =
             Some (case first_source rj sources of
                     Inr (Some v) \<Rightarrow> v
                   | _ \<Rightarrow> the (map_of template target))"
  proof (intro allI impI)
    fix target sources
    assume m: "(target, sources) \<in> set field_mappings"
    then have "target \<noteq> ''original_response''" by (auto simp: field_mappings_def)
    with fields1 m show "map_of std target =
             Some (case first_source rj sources of
                     Inr (Some v) \<Rightarrow> v
                   | _ \<Rightarrow> the (map_of template target))"
      unfolding std by (simp add: map_of_add_other_fields update_conv')
  qed
  from rj keys orig fields show ?thesis by blast
qed

lemma standardized_confidence:
  assumes "standardize_llm_response rj = Inr std"
  shows "dict_get std ''confidence_score'' dflt =
     (case first_source rj [''confidence_score'', ''confidence'', ''score''] of
        Inr (Some v) \<Rightarrow> v | _ \<Rightarrow> JFloat (Finite 50))"
proof -
  have "(''confidence_score'', [''confidence_score'', ''confidence'', ''score'']) \<in> set field_mappings"
    by (simp add: field_mappings_def)
  with standardize_dict [OF assms] have
    "map_of std ''confidence_score'' =
       Some (case first_source rj [''confidence_score'', ''confidence'', ''score''] of
               Inr (Some v) \<Rightarrow> v | _ \<Rightarrow> the (map_of template ''confidence_score''))"
    by blast
  then show ?thesis
    by (simp add: dict_get_def template_def del: first_source.simps split: sum.splits option.splits)
qed


subsection \<open>The result of a call\<close>

lemma try_llm_Some_parsed:
  assumes "try_llm_recommendation self ext ents spec excl = Some r"
  shows "\<exists>content parsed has_scores score_count rj.
           parse_response ext content = Some parsed
         \<and> annotate_scores parsed has_scores score_count = Inr rj
         \<and> r = convert_to_recommendation ext rj"
proof -
  from assms have "try_llm_body self ext ents spec excl = Inr (Some r)"
    by (simp add: try_llm_recommendation_def split: sum.splits)
  then obtain content has_scores score_count where
    "(case parse_response ext content of
        None \<Rightarrow> Inr None
      | Some rj \<Rightarrow>
         (case annotate_scores rj has_scores score_count of
            Inl e \<Rightarrow> Inr None
          | Inr annotated \<Rightarrow> Inr (Some (convert_to_recommendation ext annotated))))
     = (Inr (Some r) :: exn + recommendation option)"
    by (auto simp: try_llm_body_def ebind_Inr_iff split: prod.splits)
  then obtain parsed rj where
    "parse_response ext content = Some parsed"
    "annotate_scores parsed has_scores score_count = Inr rj"
    "r = convert_to_recommendation ext rj"
    by (cases "parse_response ext content") (auto split: sum.splits)
  then show ?thesis by blast
qed

lemma generate_result_cases:
  assumes "generate_recommendation self ext ents spec excl = Inr r"
  shows "(\<exists>c. calculate_recommendation_confidence ext (JDict (recommendation_data ents)) = Inr c
             \<and> r = \<lparr> transfer_request_id = ''error'',
                      recommended_campus_id = JStr ''ERROR'',
                      confidence_score = flt_half c,
                      reason = JStr ''Failed to generate a recommendation with the LLM'',
                      notes' = [''LLM error - please check the logs and try again''],
                      explainability_details = recommendation_data ents \<rparr>)
       \<or> (\<exists>content parsed has_scores score_count rj.
             parse_response ext content = Some parsed
           \<and> annotate_scores parsed has_scores score_count = Inr rj
           \<and> ((\<exists>e. convert_body ext rj = Inl e \<and> r = conversion_error ext e)
               \<or> convert_body ext rj = Inr r))"
proof -
  from generate_cases [OF assms] show ?thesis
  proof
    assume "try_llm_recommendation self ext ents spec excl = Some r"
    from try_llm_Some_parsed [OF this] obtain content parsed has_scores score_count rj where
      p: "parse_response ext content = Some parsed"
         "annotate_scores parsed has_scores score_count = Inr rj"
         "r = convert_to_recommendation ext rj" by blast
    have "(\<exists>e. convert_body ext rj = Inl e \<and> r = conversion_error ext e) \<or> convert_body ext rj = Inr r"
      using p(3) by (cases "convert_body ext rj") (simp_all add: convert_to_recommendation_def)
    with p show ?thesis by blast
  next
    assume "try_llm_recommendation self ext ents spec excl = None
       \<and> (\<exists>c. calculate_recommendation_confidence ext (JDict (recommendation_data ents)) = Inr c
               \<and> r = \<lparr> transfer_request_id = ''error'',
                        recommended_campus_id = JStr ''ERROR'',
                        confidence_score = flt_half c,
                        reason = JStr ''Failed to generate a recommendation with the LLM'',
                        notes' = [''LLM error - please check the logs and try again''],
                        explainability_details = recommendation_data ents \<rparr>)"
    then show ?thesis by blast
  qed
qed

text \<open>The annotation changes nothing but the key \<^verbatim>\<open>score_utilization\<close>.\<close>

lemma annotate_scores_shape:
  assumes "annotate_scores parsed has_scores score_count = Inr rj"
  shows "rj = parsed \<or> (\<exists>d u. parsed = JDict d \<and> rj = JDict (AList.update ''score_utilization'' u d))"
proof (cases "has_scores \<and> truthy parsed")
  case False
  with assms show ?thesis by (auto simp: annotate_scores_def)
next
  case True
  with assms obtain refs u where "py_setitem parsed ''score_utilization'' u = Inr rj"
    by (auto simp: annotate_scores_def ebind_Inr_iff)
  then show ?thesis by (cases parsed) auto
qed

lemma first_source_update_other:
  assumes "k \<notin> set ss"
  shows "first_source (JDict (AList.update k u d)) ss = first_source (JDict d) ss"
  using assms
proof (induction ss)
  case Nil
  then show ?case by simp
next
  case (Cons s ss)
  then have "s \<noteq> k" "k \<notin> set ss" by auto
  then have "map_of (AList.update k u d) s = map_of d s"
    and "(s \<in> fst ` set (AList.update k u d)) = (s \<in> fst ` set d)"
    by (auto simp: update_conv' dom_update)
  with Cons.IH [OF \<open>k \<notin> set ss\<close>] show ?case
    by (cases "s \<in> fst ` set d"; cases "map_of d s") simp_all
qed

lemma annotate_first_source:
  assumes "annotate_scores parsed has_scores score_count = Inr rj"
    and "''score_utilization'' \<notin> set ss"
  shows "first_source rj ss = first_source parsed ss"
  using annotate_scores_shape [OF assms(1)] first_source_update_other [OF assms(2)]
  by auto


subsection \<open>The store\<close>

lemma convert_body_split:
  "convert_body ext rj = ebind (standardize_llm_response rj) (convert_rest ext rj)"
proof (cases "standardize_llm_response rj")
  case (Inl e)
  then show ?thesis by (simp add: convert_body_def ebind_def)
next
  case (Inr std)
  have "convert_body ext rj = convert_rest ext rj std"
    unfolding convert_body_def convert_rest_def Let_def Inr
    by (simp add: ebind_def [of "Inr std"])
  with Inr show ?thesis by (simp add: ebind_def)
qed

lemma standardize_on_frame:
  assumes "b < length st"
  shows "snd (standardize_llm_response_on st a) ! b = st ! b"
  using assms
  by (auto simp: standardize_llm_response_on_def alloc_def store_write_def Let_def nth_append
           split: sum.splits prod.splits)

lemma standardize_on_length:
  "length (snd (standardize_llm_response_on st a)) = Suc (length st)"
  by (auto simp: standardize_llm_response_on_def alloc_def store_write_def Let_def
           split: sum.splits prod.splits)

lemma standardize_on_result:
  assumes "a < length st"
  shows "(case standardize_llm_response_on st a of
            (Inl e, st1) \<Rightarrow> standardize_llm_response (st ! a) = Inl e
          | (Inr a_std, st1) \<Rightarrow> standardize_llm_response (st ! a) = Inr (load_dict st1 a_std)
                                 \<and> st1 ! a = st ! a)"
  using assms
  by (auto simp: standardize_llm_response_on_def standardize_llm_response_def alloc_def
                 store_write_def load_dict_def Let_def nth_append ebind_def
           split: sum.splits prod.splits)

lemma convert_on_result:
  assumes "a < length st"
  shows "fst (convert_to_recommendation_on ext st a) = convert_to_recommendation ext (st ! a)"
proof (cases "standardize_llm_response_on st a")
  case (Pair res st1)
  with standardize_on_result [OF assms] show ?thesis
    by (cases res)
       (auto simp: convert_to_recommendation_on_def convert_to_recommendation_def
                   convert_body_split ebind_def split: sum.splits)
qed

lemma convert_on_frame:
  assumes "b < length st"
  shows "snd (convert_to_recommendation_on ext st a) ! b = st ! b"
proof (cases "standardize_llm_response_on st a")
  case (Pair res st1)
  with standardize_on_frame [OF assms, of a] have "st1 ! b = st ! b" by simp
  with Pair show ?thesis
    by (auto simp: convert_to_recommendation_on_def split: sum.splits)
qed

lemma try_llm_on_frame:
  assumes "b < length st"
  shows "snd (try_llm_recommendation_on self ext st a_e a_s a_x) ! b = st ! b"
proof -
  have w: "st' ! b = st ! b"
    if "convert_to_recommendation_on ext (st @ [v]) (length st) = (r, st')" for v r st'
    using convert_on_frame [of b "st @ [v]" ext "length st"] assms that
    by (simp add: nth_append)
  show ?thesis
    using assms w
    by (auto simp: try_llm_recommendation_on_def alloc_def store_write_def Let_def nth_append
             split: sum.splits option.splits prod.splits)
qed

lemma try_llm_on_result:
  "fst (try_llm_recommendation_on self ext st a_e a_s a_x) =
     try_llm_recommendation self ext (load_dict st a_e) (load_dict st a_s)
       (map_option (load_dict st) a_x)"
proof -
  have c: "r = convert_to_recommendation ext v"
    if "convert_to_recommendation_on ext (st @ [v]) (length st) = (r, st')" for v r st'
    using convert_on_result [of "length st" "st @ [v]" ext] that by simp
  show ?thesis
    using c
    by (auto simp: try_llm_recommendation_on_def try_llm_recommendation_def try_llm_body_def
                   alloc_def store_write_def Let_def ebind_def
             split: sum.splits option.splits prod.splits)
qed

lemma generate_on_result:
  assumes "a_e < length st"
  shows "fst (generate_recommendation_on self ext st a_e a_s a_x) =
     generate_recommendation self ext (load_dict st a_e) (load_dict st a_s)
       (map_option (load_dict st) a_x)"
proof (cases "try_llm_recommendation_on self ext st a_e a_s a_x")
  case (Pair res st1)
  with try_llm_on_result [of self ext st a_e a_s a_x] have
    res: "try_llm_recommendation self ext (load_dict st a_e) (load_dict st a_s)
       (map_option (load_dict st) a_x) = res" by simp
  from Pair try_llm_on_frame [OF assms, of self ext a_e a_s a_x] have "st1 ! a_e = st ! a_e" by simp
  then have "load_dict st1 a_e = load_dict st a_e" by (simp add: load_dict_def)
  with Pair res show ?thesis
    by (cases res) (simp_all add: generate_recommendation_on_def generate_recommendation_def)
qed

subsection \<open>More on the result of a call\<close>



lemma standardize_returns_iff:
  "(\<exists>std. standardize_llm_response (JDict d) = Inr std) \<longleftrightarrow>
   (\<exists>u. py_sliceable
           (case first_source (JDict d)
                   [''clinical_reasoning'', ''reasoning'', ''reason'', ''justification'', ''rationale''] of
              Inr (Some v) \<Rightarrow> v | _ \<Rightarrow> JStr ''No reason provided'') = Inr u)"
proof -
  obtain std1 where
    mf: "map_fields (JDict d) field_mappings template = Inr std1" and
    keys1: "map fst std1 = map fst template" and
    fields1: "\<forall>target sources. (target, sources) \<in> set field_mappings \<longrightarrow>
           map_of std1 target =
             Some (case first_source (JDict d) sources of
                     Inr (Some v) \<Rightarrow> v
                   | _ \<Rightarrow> the (map_of template target))"
    using map_fields_dict [of d] by blast
  define std where "std = add_other_fields d (AList.update ''original_response'' (JDict d) std1)"
  define chosen where "chosen = (case first_source (JDict d)
                   [''clinical_reasoning'', ''reasoning'', ''reason'', ''justification'', ''rationale''] of
              Inr (Some v) \<Rightarrow> v | _ \<Rightarrow> JStr ''No reason provided'')"
  have m: "map_of std k = (case map_of (AList.update ''original_response'' (JDict d) std1) k of
                              Some v \<Rightarrow> Some v | None \<Rightarrow> map_of d k)" for k
    unfolding std_def by (rule map_of_add_other_fields)
  from keys1 have "set (map fst std1) = set (map fst template)" by simp
  then have k1: "fst ` set std1 = {''campus_id'', ''reason'', ''confidence_score'', ''care_level'', ''notes''}"
    by (simp add: template_def)
  have "(''reason'', [''clinical_reasoning'', ''reasoning'', ''reason'', ''justification'', ''rationale''])
          \<in> set field_mappings"
    by (simp add: field_mappings_def)
  with fields1 have "map_of std1 ''reason'' = Some (case first_source (JDict d)
                   [''clinical_reasoning'', ''reasoning'', ''reason'', ''justification'', ''rationale''] of
              Inr (Some v) \<Rightarrow> v | _ \<Rightarrow> the (map_of template ''reason''))"
    by blast
  then have r1: "map_of std1 ''reason'' = Some chosen"
    unfolding chosen_def
    by (simp add: template_def del: first_source.simps split: sum.splits option.splits)
  have reason: "py_getitem (JDict std) ''reason'' = Inr chosen"
    using r1 by (simp add: m update_conv')
  from k1 obtain c where "map_of std1 ''campus_id'' = Some c"
    by (metis insertI1 map_of_eq_None_iff not_Some_eq)
  then have campus: "py_getitem (JDict std) ''campus_id'' = Inr c"
    by (simp add: m update_conv')
  from k1 obtain l where "map_of std1 ''care_level'' = Some l"
    by (metis insertCI map_of_eq_None_iff not_Some_eq)
  then have level: "py_getitem (JDict std) ''care_level'' = Inr l"
    by (simp add: m update_conv')
  have "standardize_llm_response (JDict d) =
          (case py_sliceable chosen of Inl e \<Rightarrow> Inl e | Inr u \<Rightarrow> Inr std)"
    using mf campus reason level
    by (simp add: standardize_llm_response_def ebind_def Let_def std_def [symmetric]
             split: sum.splits)
  then show ?thesis
    unfolding chosen_def [symmetric]
    by (cases "py_sliceable chosen") auto
qed

lemma confidence_sources:
  assumes "generate_recommendation self ext ents spec excl = Inr r"
  shows "(\<exists>c. calculate_recommendation_confidence ext (JDict (recommendation_data ents)) = Inr c
             \<and> confidence_score r = flt_half c)
       \<or> confidence_score r = Finite 10
       \<or> (\<exists>content parsed c.
             parse_response ext content = Some parsed
           \<and> py_float ext
                (case first_source parsed [''confidence_score'', ''confidence'', ''score''] of
                   Inr (Some v) \<Rightarrow> v | _ \<Rightarrow> JFloat (Finite 50)) = Inr c
           \<and> confidence_score r =
               (if flt_lt c (Finite 0) \<or> flt_lt (Finite 100) c then Finite 70 else c))"
proof -
  from generate_result_cases [OF assms] show ?thesis
  proof (elim disjE exE conjE)
    fix c
    assume "calculate_recommendation_confidence ext (JDict (recommendation_data ents)) = Inr c"
      and "r = \<lparr> transfer_request_id = ''error'',
                      recommended_campus_id = JStr ''ERROR'',
                      confidence_score = flt_half c,
                      reason = JStr ''Failed to generate a recommendation with the LLM'',
                      notes' = [''LLM error - please check the logs and try again''],
                      explainability_details = recommendation_data ents \<rparr>"
    then show ?thesis by auto
  next
    fix content parsed has_scores score_count rj e
    assume "r = conversion_error ext e"
    then show ?thesis by (simp add: conversion_error_def)
  next
    fix content parsed has_scores score_count rj
    assume p: "parse_response ext content = Some parsed"
      and a: "annotate_scores parsed has_scores score_count = Inr rj"
      and b: "convert_body ext rj = Inr r"
    from convert_body_confidence [OF b] obtain std c where
      std: "standardize_llm_response rj = Inr std" and
      c: "py_float ext (dict_get std ''confidence_score'' (JFloat (Finite 70))) = Inr c" and
      r: "confidence_score r =
               (if flt_lt c (Finite 0) \<or> flt_lt (Finite 100) c then Finite 70 else c)"
      by blast
    have "first_source rj [''confidence_score'', ''confidence'', ''score'']
            = first_source parsed [''confidence_score'', ''confidence'', ''score'']"
      by (rule annotate_first_source [OF a]) simp
    with standardized_confidence [OF std] c have
      "py_float ext
                (case first_source parsed [''confidence_score'', ''confidence'', ''score''] of
                   Inr (Some v) \<Rightarrow> v | _ \<Rightarrow> JFloat (Finite 50)) = Inr c"
      by (simp del: first_source.simps)
    with p r show ?thesis by blast
  qed
qed

lemma confidence_range_or_nan:
  assumes gen: "generate_recommendation self ext ents spec excl = Inr r"
    and calc: "\<And>c. calculate_recommendation_confidence ext (JDict (recommendation_data ents)) = Inr c
                 \<Longrightarrow> \<exists>q. c = Finite q \<and> 0 \<le> q \<and> q \<le> 100"
  shows "confidence_score r = NaN \<or> (\<exists>q. confidence_score r = Finite q \<and> 0 \<le> q \<and> q \<le> 100)"
proof -
  from confidence_sources [OF gen] show ?thesis
  proof (elim disjE exE conjE)
    fix c
    assume c: "calculate_recommendation_confidence ext (JDict (recommendation_data ents)) = Inr c"
      and r: "confidence_score r = flt_half c"
    from calc [OF c] obtain q where "c = Finite q" "0 \<le> q" "q \<le> 100" by blast
    with r have "confidence_score r = Finite (q / 2)" "0 \<le> q / 2" "q / 2 \<le> 100" by simp_all
    then show ?thesis by blast
  next
    assume "confidence_score r = Finite 10"
    then show ?thesis by simp
  next
    fix content parsed c
    assume "confidence_score r =
               (if flt_lt c (Finite 0) \<or> flt_lt (Finite 100) c then Finite 70 else c)"
    then show ?thesis using flt_range [of c] by (auto split: if_splits)
  qed
qed

section \<open>The claims\<close>

subsection \<open>C1: what is returned when the text generation fails\<close>

text \<open>
  Claim C1, as amended. When the call of the client raises (it is made once; there is
  no retry), \<^verbatim>\<open>generate_recommendation\<close> returns an error placeholder: the request id
  \<^verbatim>\<open>"error"\<close>, the campus \<^verbatim>\<open>"ERROR"\<close>, half of what the confidence calculator returns for
  the minimal data as confidence, a fixed reason, the single note ``LLM error - please
  check the logs and try again'', and the minimal data as explainability details. No
  rule-only ranking is made and no note says ``generated without narrative reasoning''.
\<close>

theorem C1_error_placeholder:
  assumes "\<forall>msgs. \<exists>e. client self (model self) msgs = Inl e"
    and "calculate_recommendation_confidence ext (JDict (recommendation_data ents)) = Inr c"
  shows "generate_recommendation self ext ents spec excl =
           Inr \<lparr> transfer_request_id = ''error'',
                 recommended_campus_id = JStr ''ERROR'',
                 confidence_score = flt_half c,
                 reason = JStr ''Failed to generate a recommendation with the LLM'',
                 notes' = [''LLM error - please check the logs and try again''],
                 explainability_details = recommendation_data ents \<rparr>"
  using client_failure [OF assms(1), of ext ents spec excl] assms(2)
  by (simp add: generate_recommendation_def ebind_def)

theorem C1_error_placeholder_witness:
  "(\<forall>msgs. \<exists>e. client failing_generator (model failing_generator) msgs = Inl e)
   \<and> calculate_recommendation_confidence (ex_externals ex_table)
        (JDict (recommendation_data ex_entities)) = Inr (Finite 80)
   \<and> generate_recommendation failing_generator (ex_externals ex_table) ex_entities ex_specialty
        ex_exclusion =
       Inr \<lparr> transfer_request_id = ''error'',
             recommended_campus_id = JStr ''ERROR'',
             confidence_score = Finite 40,
             reason = JStr ''Failed to generate a recommendation with the LLM'',
             notes' = [''LLM error - please check the logs and try again''],
             explainability_details = recommendation_data ex_entities \<rparr>"
proof -
  have fails: "\<forall>msgs. \<exists>e. client failing_generator (model failing_generator) msgs = Inl e"
    by (simp add: failing_generator_def)
  have calc: "calculate_recommendation_confidence (ex_externals ex_table)
        (JDict (recommendation_data ex_entities)) = Inr (Finite 80)"
    by (simp add: ex_externals_def ex_calculator_def recommendation_data_def ex_entities_def
        dict_get_def)
  from C1_error_placeholder [OF fails calc, of ex_specialty ex_exclusion] fails calc
  show ?thesis by simp
qed

text \<open>
  The claim as stated fails: with a client that always raises, a patient with known
  demographics and an exclusion analysis that names a campus, the result is the
  placeholder for the campus \<^verbatim>\<open>"ERROR"\<close>, and its only note does not contain the marker.
\<close>

theorem C1_counterexample:
  "generate_recommendation failing_generator (ex_externals ex_table) ex_entities ex_specialty
     ex_exclusion =
     Inr \<lparr> transfer_request_id = ''error'',
           recommended_campus_id = JStr ''ERROR'',
           confidence_score = Finite 40,
           reason = JStr ''Failed to generate a recommendation with the LLM'',
           notes' = [''LLM error - please check the logs and try again''],
           explainability_details =
             [(''patient_demographics'', JDict [(''age'', JInt 3), (''weight'', JInt 14)]),
              (''clinical_history'', JStr ''''),
              (''chief_complaint'', JStr ''''),
              (''extracted_vital_signs'', JDict [])] \<rparr>
   \<and> \<not> list_ex (\<lambda>note. str_contains note ''generated without narrative reasoning'')
         [''LLM error - please check the logs and try again'']"
  by code_simp

subsection \<open>C2: where the confidence comes from\<close>




subsection \<open>C3: the order of the parsing attempts\<close>



subsection \<open>C4: whose care level is reported\<close>




subsection \<open>C5: the proximity analysis\<close>




subsection \<open>C6: the explainability details\<close>




subsection \<open>C7: the range of the confidence\<close>

text \<open>
  Claim C7 fails on a response whose confidence is NaN, which \<^verbatim>\<open>json.loads\<close> reads from
  the literal \<^verbatim>\<open>NaN\<close>: NaN is neither below 0 nor above 100, so the range check of
  \<^verbatim>\<open>_convert_to_recommendation\<close> lets it through and the Recommendation has the
  confidence NaN, although the calculator of the example only returns 80 or 20. By
  \<open>confidence_range_or_nan\<close> this is the only way out of the interval.
\<close>

theorem C7_confidence_nan:
  "observe confidence_score (ex_result reply_nan) = Some NaN
   \<and> json_loads (ex_externals ex_table) reply_nan = Some reply_nan_json
   \<and> (\<forall>data. calculate_recommendation_confidence (ex_externals ex_table) data = Inr (Finite 80)
            \<or> calculate_recommendation_confidence (ex_externals ex_table) data = Inr (Finite 20))"
proof -
  have a: "observe confidence_score (ex_result reply_nan) = Some NaN"
    by code_simp
  have b: "json_loads (ex_externals ex_table) reply_nan = Some reply_nan_json"
    by code_simp
  have c: "calculate_recommendation_confidence (ex_externals ex_table) data = Inr (Finite 80)
            \<or> calculate_recommendation_confidence (ex_externals ex_table) data = Inr (Finite 20)"
    for data
    by (cases data) (simp_all add: ex_externals_def ex_calculator_def)
  from a b c show ?thesis by blast
qed

subsection \<open>C8: the inputs are left as they were\<close>

text \<open>
  Claim C8. A call of \<^verbatim>\<open>generate_recommendation\<close> changes no object that existed before
  the call, on any path: every address of the store that was allocated before the call
  holds the same value afterwards. In particular the three dictionaries passed in are
  unchanged. (By \<open>generate_on_result\<close> the call on the store returns what
  \<open>generate_recommendation\<close> returns for the values at the three addresses.)
\<close>

theorem C8_inputs_unchanged:
  assumes "a < length st"
  shows "snd (generate_recommendation_on self ext st a_entities a_specialty a_exclusion) ! a = st ! a"
proof (cases "try_llm_recommendation_on self ext st a_entities a_specialty a_exclusion")
  case (Pair res st1)
  with try_llm_on_frame [OF assms, of self ext a_entities a_specialty a_exclusion]
  have "st1 ! a = st ! a" by simp
  with Pair show ?thesis
    by (cases res) (simp_all add: generate_recommendation_on_def)
qed

theorem C8_inputs_unchanged_witness:
  "(0::nat) < length ex_store
   \<and> snd (generate_recommendation_on (replying_generator reply_general) (ex_externals ex_table)
           ex_store 0 1 (Some 2)) ! 0 = JDict ex_entities
   \<and> length (snd (generate_recommendation_on (replying_generator reply_general)
           (ex_externals ex_table) ex_store 0 1 (Some 2))) = 5"
proof -
  have l: "(0::nat) < length ex_store" by (simp add: ex_store_def)
  have n: "length (snd (generate_recommendation_on (replying_generator reply_general)
           (ex_externals ex_table) ex_store 0 1 (Some 2))) = 5"
    by code_simp
  from C8_inputs_unchanged [OF l, of "replying_generator reply_general" "ex_externals ex_table"
      0 1 "Some 2"] l n
  show ?thesis by (simp add: ex_store_def)
qed

subsection \<open>C9: a Recommendation is always returned\<close>

text \<open>
  Claim C9. \<^verbatim>\<open>generate_recommendation\<close> returns a Recommendation whatever the client and
  the parsers do, provided the confidence calculator returns normally on the data of the
  fallback path; and \<^verbatim>\<open>_try_llm_recommendation\<close> turns every exception of its body into
  \<^verbatim>\<open>None\<close>. (The inputs are dictionaries, as the signature says; \<^verbatim>\<open>print\<close> and the logger
  are taken not to fail.)
\<close>

theorem C9_generate_total:
  assumes "calculate_recommendation_confidence ext (JDict (recommendation_data ents)) = Inr c"
  shows "(\<exists>r. generate_recommendation self ext ents spec excl = Inr r)
       \<and> (case try_llm_body self ext ents spec excl of
            Inl e \<Rightarrow> try_llm_recommendation self ext ents spec excl = None
          | Inr res \<Rightarrow> try_llm_recommendation self ext ents spec excl = res)"
  using assms
  by (simp add: generate_recommendation_def try_llm_recommendation_def ebind_def
           split: option.splits sum.splits)

theorem C9_generate_total_witness:
  "calculate_recommendation_confidence (ex_externals []) (JDict (recommendation_data ex_entities))
     = Inr (Finite 80)
   \<and> (\<exists>r. generate_recommendation failing_generator (ex_externals []) ex_entities ex_specialty
             ex_exclusion = Inr r)
   \<and> try_llm_body failing_generator (ex_externals []) ex_entities ex_specialty ex_exclusion
       = Inl BackendError
   \<and> try_llm_recommendation failing_generator (ex_externals []) ex_entities ex_specialty
       ex_exclusion = None"
proof -
  have calc:
    "calculate_recommendation_confidence (ex_externals []) (JDict (recommendation_data ex_entities))
       = Inr (Finite 80)"
    by (simp add: ex_externals_def ex_calculator_def recommendation_data_def ex_entities_def
        dict_get_def)
  have body:
    "try_llm_body failing_generator (ex_externals []) ex_entities ex_specialty ex_exclusion
       = Inl BackendError"
    by code_simp
  from C9_generate_total [OF calc, of failing_generator ex_specialty ex_exclusion] calc body
  show ?thesis by simp
qed

subsection \<open>C10: the standardised response\<close>

text \<open>
  Claim C10 fails on a dictionary whose reason is a number: the print at the end of
  \<^verbatim>\<open>_standardize_llm_response\<close> slices the reason, which raises a TypeError, and no
  dictionary is returned. By \<open>standardize_returns_iff\<close> the function returns exactly
  when the chosen reason is a string or a list, and by \<open>standardize_dict\<close> and
  \<open>first_source_dict_Some\<close> what it returns is as the claim says.
\<close>

theorem C10_standardize_raises:
  "standardize_llm_response (JDict [(''clinical_reasoning'', JInt 42)]) = Inl TypeError"
  by code_simp

end
